theory Spec2Isabelle
  imports Complex_Main "HOL-Library.Extended_Nat" "HOL-Library.Multiset"
begin

section \<open>The radar visual (src/src/visual.ts)\<close>

text \<open>
  A shallow embedding of the class \<open>Visual\<close> of \<open>visual.ts\<close>: the data transform
  (\<open>transformData\<close>), the geometry helpers, the ring radii, the randomised blip placement
  and the sidebar renderers.

  Conventions of the embedding.
  \<^item> A JavaScript number is a real number: rounding, infinities and NaN are not modelled.
  \<^item> A method of the class takes the object (\<open>this\<close>) as its first argument.
  \<^item> \<open>Math.random()\<close> is an explicit stream \<open>rnd :: nat \<Rightarrow> real\<close> together with the
    index of the next draw.
  \<^item> A thrown exception is the \<open>Inl\<close> branch of a sum.
  \<^item> The classes \<open>Radar\<close>, \<open>Sector\<close>, \<open>Blip\<close>, \<open>Ring\<close> and \<open>ColourGenerator\<close> are used by
    \<open>visual.ts\<close> and defined in other files of the repository; what is needed of them
    is modelled from the specification and marked as such.
\<close>

subsection \<open>Values and the domain model\<close>

text \<open>
  A cell of the host's table. The five roles are text or boolean columns; a cell of a
  column that does not exist reads as \<open>undefined\<close>.
\<close>

datatype jsval = JUndefined | JNull | JBool bool | JStr string

datatype error = TypeError

record ring =
  ring_name :: string
  ring_order :: nat
  ring_colour :: string

record coordinates =
  point_x :: real
  point_y :: real

record polar =
  distance :: real
  angle :: real

record radii =
  inner :: real
  outer :: real

text \<open>
  Modelled from the spec: the class \<open>Blip\<close> (name, description, isNew, ring, owning sector,
  coordinates assigned by the layout, an id derived from the name). The type parameter is
  the type of the ring reference: \<open>transformData\<close> stores whatever \<open>ringMap[ringName]\<close>
  yields, the layout works on blips whose ring is a \<open>Ring\<close>, as the signature
  \<open>generateBlipCoordinates(sector: Sector, ring: Ring, ...)\<close> declares.
\<close>

record 'r blip =
  blip_id :: string
  blip_name :: jsval
  blip_ring :: 'r
  blip_sector :: string
  blip_isNew :: jsval
  blip_description :: jsval
  blip_coordinates :: "coordinates option"

text \<open>
  Modelled from the spec: the class \<open>Sector\<close> (id derived from the name, name, colour,
  start and end angle assigned by \<open>setSectorAngles\<close>, the blips in insertion order).
  The angles of a sector are 0 until they are assigned.
\<close>

record 'r sector =
  sector_id :: string
  sector_name :: jsval
  sector_colour :: string
  startAngle :: real
  endAngle :: real
  blips :: "'r blip list"

text \<open>
  Modelled from the spec: the class \<open>Radar\<close> owns the sectors in insertion order and
  exposes the ring set.
\<close>

record 'r radar =
  sectors :: "'r sector list"
  rings :: "ring list"

text \<open>
  The state of a \<open>Visual\<close> that the modelled methods read: the radar of the last update
  and the drawing surface (the bounding box and the padding of the element \<open>#main\<close>).
\<close>

record 'r visual =
  radar :: "'r radar"
  containerWidth :: real
  containerHeight :: real
  containerPadding :: int
  updateCount :: nat

subsection \<open>Geometry\<close>

definition getViewBoxSize :: "'r visual \<Rightarrow> real" where
  "getViewBoxSize this = 100"

definition calculateCenter :: "'r visual \<Rightarrow> coordinates" where
  "calculateCenter this =
     (let viewBoxSize = getViewBoxSize this
      in \<lparr>point_x = viewBoxSize / 2, point_y = viewBoxSize / 2\<rparr>)"

definition calculateMaxRadius :: "'r visual \<Rightarrow> real" where
  "calculateMaxRadius this =
     min (containerWidth this) (containerHeight this) / 2 - real_of_int (containerPadding this * 2)"

definition convertRelativeCoordinates :: "'r visual \<Rightarrow> coordinates \<Rightarrow> coordinates" where
  "convertRelativeCoordinates this c =
     (let center = calculateCenter this
      in \<lparr>point_x = point_x c + point_x center, point_y = point_y center - point_y c\<rparr>)"

definition polarToCartesian :: "polar \<Rightarrow> coordinates" where
  "polarToCartesian p =
     \<lparr>point_x = distance p * sin (angle p), point_y = distance p * cos (angle p)\<rparr>"

definition calculateRingRadii :: "'r visual \<Rightarrow> ring \<Rightarrow> radii" where
  "calculateRingRadii this r =
     (let maxRadius = getViewBoxSize this / 2;
          ringCount = real (length (rings (radar this)))
      in \<lparr>inner = maxRadius * (real (ring_order r) - 1) / ringCount,
          outer = maxRadius * real (ring_order r) / ringCount\<rparr>)"

definition calculateBlipRadius :: "'r visual \<Rightarrow> real" where
  "calculateBlipRadius this = 2"

definition distanceBetweenPoints :: "coordinates \<Rightarrow> coordinates \<Rightarrow> real" where
  "distanceBetweenPoints coordinates1 coordinates2 =
     ((point_x coordinates1 - point_x coordinates2) ^ 2
      + (point_y coordinates1 - point_y coordinates2) ^ 2) powr 0.5"

definition coordinatesAreFree :: "'r visual \<Rightarrow> coordinates \<Rightarrow> coordinates list \<Rightarrow> bool" where
  "coordinatesAreFree this c allCoordinates =
     (let blipRadius = calculateBlipRadius this
      in list_all (\<lambda>currentCoordinates.
           distanceBetweenPoints c currentCoordinates > blipRadius * 2.1) allCoordinates)"

subsection \<open>The rings\<close>

text \<open>The four \<open>Ring\<close> objects that \<open>transformData\<close> constructs for \<open>ringMap\<close>.\<close>

definition Accelerate :: ring where
  "Accelerate = \<lparr>ring_name = ''Accelerate'', ring_order = 1, ring_colour = ''#C7C7C7''\<rparr>"

definition Progress :: ring where
  "Progress = \<lparr>ring_name = ''Progress'', ring_order = 2, ring_colour = ''#A3A3A3''\<rparr>"

definition Monitor :: ring where
  "Monitor = \<lparr>ring_name = ''Monitor'', ring_order = 3, ring_colour = ''#7A7A7A''\<rparr>"

definition Pause :: ring where
  "Pause = \<lparr>ring_name = ''Pause'', ring_order = 4, ring_colour = ''#525252''\<rparr>"

text \<open>
  Modelled from the spec: the ring set that a \<open>Radar\<close> exposes (\<open>radar.rings\<close>) is the
  fixed set of the four rings, in ring order.
\<close>

definition fixedRings :: "ring list" where
  "fixedRings = [Accelerate, Progress, Monitor, Pause]"

text \<open>Modelled from the spec: \<open>new Radar()\<close>, no sector yet, the fixed ring set.\<close>

definition newRadar :: "'r radar" where
  "newRadar = \<lparr>sectors = [], rings = fixedRings\<rparr>"

text \<open>Modelled from the spec: \<open>radar.blips\<close>, the blips of all sectors, flattened.\<close>

definition radar_blips :: "'r radar \<Rightarrow> 'r blip list" where
  "radar_blips r = concat (map blips (sectors r))"

subsection \<open>Blip placement\<close>

text \<open>
  The \<open>do ... while\<close> loop of \<open>generateBlipCoordinates\<close>. The comparison
  \<open>attemptCount >+ 10\<close> of the source is \<open>attemptCount > (+10)\<close>. Besides the coordinates
  that the source returns, the model returns the final \<open>attemptCount\<close> (the number of
  candidates drawn) and the index of the next draw of the random stream. Each candidate
  takes two draws, the angle first.
\<close>

function placementLoop ::
  "'r visual \<Rightarrow> (nat \<Rightarrow> real) \<Rightarrow> real \<Rightarrow> real \<Rightarrow> real \<Rightarrow> real \<Rightarrow> coordinates list
     \<Rightarrow> nat \<Rightarrow> nat \<Rightarrow> coordinates \<times> nat \<times> nat" where
  "placementLoop this rnd min_angle max_angle min_distance max_distance allCoordinates attemptCount i =
     (let a = rnd i * (max_angle - min_angle) + min_angle;
          d = rnd (i + 1) * (max_distance - min_distance) + min_distance;
          c = polarToCartesian \<lparr>distance = d, angle = a\<rparr>;
          attemptCount' = attemptCount + 1
      in if attemptCount' > 10 then (c, attemptCount', i + 2)
         else if \<not> coordinatesAreFree this c allCoordinates
           then placementLoop this rnd min_angle max_angle min_distance max_distance
                  allCoordinates attemptCount' (i + 2)
           else (c, attemptCount', i + 2))"
  by pat_completeness auto
termination
  by (relation "measure (\<lambda>(this, rnd, mina, maxa, mind, maxd, al, n, i). 11 - n)") auto

declare placementLoop.simps [simp del]

definition blipPlacement ::
  "'r visual \<Rightarrow> (nat \<Rightarrow> real) \<Rightarrow> 's sector \<Rightarrow> ring \<Rightarrow> coordinates list \<Rightarrow> nat
     \<Rightarrow> coordinates \<times> nat \<times> nat" where
  "blipPlacement this rnd s r allCoordinates i =
     (let min_angle = startAngle s + pi / 16;
          max_angle = endAngle s - pi / 16;
          ringRadii = calculateRingRadii this r;
          min_distance = inner ringRadii * 1.1;
          max_distance = outer ringRadii * 0.9;
          min_distance = (if min_distance = 0 then max_distance / 2 else min_distance)
      in placementLoop this rnd min_angle max_angle min_distance max_distance allCoordinates 0 i)"

definition generateBlipCoordinates ::
  "'r visual \<Rightarrow> (nat \<Rightarrow> real) \<Rightarrow> 's sector \<Rightarrow> ring \<Rightarrow> coordinates list \<Rightarrow> nat \<Rightarrow> coordinates" where
  "generateBlipCoordinates this rnd s r allCoordinates i =
     fst (blipPlacement this rnd s r allCoordinates i)"

definition attemptsOf ::
  "'r visual \<Rightarrow> (nat \<Rightarrow> real) \<Rightarrow> 's sector \<Rightarrow> ring \<Rightarrow> coordinates list \<Rightarrow> nat \<Rightarrow> nat" where
  "attemptsOf this rnd s r allCoordinates i =
     fst (snd (blipPlacement this rnd s r allCoordinates i))"

text \<open>The candidate that the loop body computes from the draws \<open>i\<close> and \<open>i + 1\<close>.\<close>

definition candidate :: "(nat \<Rightarrow> real) \<Rightarrow> real \<Rightarrow> real \<Rightarrow> real \<Rightarrow> real \<Rightarrow> nat \<Rightarrow> coordinates" where
  "candidate rnd min_angle max_angle min_distance max_distance i =
     polarToCartesian
       \<lparr>distance = rnd (i + 1) * (max_distance - min_distance) + min_distance,
        angle = rnd i * (max_angle - min_angle) + min_angle\<rparr>"

text \<open>
  \<open>setBlipCoordinates\<close>: the two nested \<open>forEach\<close> loops. The state that the loops
  thread: \<open>allCoordinates\<close> (\<open>placed\<close>), and for the proofs the \<open>attemptCount\<close> each
  placement ended with and the index of the next random draw.
\<close>

record layout =
  placed :: "coordinates list"
  attempts :: "nat list"
  nextDraw :: nat

fun placeBlips ::
  "ring visual \<Rightarrow> (nat \<Rightarrow> real) \<Rightarrow> ring sector \<Rightarrow> ring blip list \<Rightarrow> layout
     \<Rightarrow> ring blip list \<times> layout" where
  "placeBlips this rnd s [] st = ([], st)"
| "placeBlips this rnd s (b # bs) st =
     (case blipPlacement this rnd s (blip_ring b) (placed st) (nextDraw st) of
        (c, n, i) \<Rightarrow>
          (case placeBlips this rnd s bs
                  \<lparr>placed = placed st @ [c], attempts = attempts st @ [n], nextDraw = i\<rparr> of
             (bs', st') \<Rightarrow> (b\<lparr>blip_coordinates := Some c\<rparr> # bs', st')))"

fun placeSectors ::
  "ring visual \<Rightarrow> (nat \<Rightarrow> real) \<Rightarrow> ring sector list \<Rightarrow> layout \<Rightarrow> ring sector list \<times> layout" where
  "placeSectors this rnd [] st = ([], st)"
| "placeSectors this rnd (s # ss) st =
     (case placeBlips this rnd s (blips s) st of
        (bs, st') \<Rightarrow>
          (case placeSectors this rnd ss st' of
             (ss', st'') \<Rightarrow> (s\<lparr>blips := bs\<rparr> # ss', st'')))"

definition setBlipCoordinates :: "ring visual \<Rightarrow> (nat \<Rightarrow> real) \<Rightarrow> ring visual \<times> layout" where
  "setBlipCoordinates this rnd =
     (case placeSectors this rnd (sectors (radar this))
             \<lparr>placed = [], attempts = [], nextDraw = 0\<rparr> of
        (ss, st) \<Rightarrow> (this\<lparr>radar := (radar this)\<lparr>sectors := ss\<rparr>\<rparr>, st))"

text \<open>
  The invariant of the layout state: one attempt count per placed blip, and every
  placed blip is more than \<open>2.1\<close> blip radii away from every blip placed before it,
  unless its placement ended with \<open>attemptCount > 10\<close> (the \<open>break\<close> of the loop, which
  returns the candidate unchecked).
\<close>

definition wellSpaced :: "'r visual \<Rightarrow> layout \<Rightarrow> bool" where
  "wellSpaced this st =
     (length (attempts st) = length (placed st)
      \<and> (\<forall>j < length (placed st). \<forall>i < j.
            distanceBetweenPoints (placed st ! j) (placed st ! i) > calculateBlipRadius this * 2.1
            \<or> 10 < attempts st ! j))"

subsection \<open>Objects used as dictionaries\<close>

text \<open>
  \<open>ringMap\<close> and \<open>sectors\<close> are plain objects. A lookup \<open>obj[key]\<close> converts the key to
  a string and finds an own property, or else a member inherited from
  \<open>Object.prototype\<close> (a function or an object, which is truthy and has none of the
  properties of a ring or a sector), or else \<open>undefined\<close>.
\<close>

fun toPropertyKey :: "jsval \<Rightarrow> string" where
  "toPropertyKey JUndefined = ''undefined''"
| "toPropertyKey JNull = ''null''"
| "toPropertyKey (JBool b) = (if b then ''true'' else ''false'')"
| "toPropertyKey (JStr s) = s"

definition objectPrototypeKeys :: "string list" where
  "objectPrototypeKeys =
     [''constructor'', ''hasOwnProperty'', ''isPrototypeOf'', ''propertyIsEnumerable'',
      ''toLocaleString'', ''toString'', ''valueOf'', ''__proto__'', ''__defineGetter__'',
      ''__defineSetter__'', ''__lookupGetter__'', ''__lookupSetter__'']"

datatype 'a property = Own 'a | Inherited | Absent

definition getProperty :: "(string \<times> 'a) list \<Rightarrow> string \<Rightarrow> 'a property" where
  "getProperty obj key =
     (case map_of obj key of
        Some v \<Rightarrow> Own v
      | None \<Rightarrow> if key \<in> set objectPrototypeKeys then Inherited else Absent)"

text \<open>Assignment to a property: an own property keeps its place, a new one goes last.\<close>

fun setProperty :: "(string \<times> 'a) list \<Rightarrow> string \<Rightarrow> 'a \<Rightarrow> (string \<times> 'a) list" where
  "setProperty [] key v = [(key, v)]"
| "setProperty ((k, w) # obj) key v =
     (if k = key then (k, v) # obj else (k, w) # setProperty obj key v)"

text \<open>
  The order in which \<open>for (let index in sectors)\<close> visits the own properties: the keys
  that are array indices (canonical decimal numerals below \<open>2^32 - 1\<close>) first, in
  ascending numeric order, then the other keys in the order of their creation.
\<close>

definition isDigit :: "char \<Rightarrow> bool" where
  "isDigit c = (48 \<le> (of_char c :: nat) \<and> (of_char c :: nat) \<le> 57)"

fun decimal :: "string \<Rightarrow> nat \<Rightarrow> nat option" where
  "decimal [] acc = Some acc"
| "decimal (c # cs) acc =
     (if isDigit c then decimal cs (10 * acc + (of_char c - 48)) else None)"

definition arrayIndex :: "string \<Rightarrow> nat option" where
  "arrayIndex s =
     (if s = [] \<or> (hd s = CHR ''0'' \<and> s \<noteq> ''0'') then None
      else case decimal s 0 of
             None \<Rightarrow> None
           | Some n \<Rightarrow> if n < 2 ^ 32 - 1 then Some n else None)"

definition isArrayIndex :: "string \<Rightarrow> bool" where
  "isArrayIndex s = (arrayIndex s \<noteq> None)"

definition indexValue :: "string \<Rightarrow> nat" where
  "indexValue s = (case arrayIndex s of Some n \<Rightarrow> n | None \<Rightarrow> 0)"

definition forIn :: "(string \<times> 'a) list \<Rightarrow> (string \<times> 'a) list" where
  "forIn obj =
     sort_key (\<lambda>kv. indexValue (fst kv)) (filter (\<lambda>kv. isArrayIndex (fst kv)) obj)
     @ filter (\<lambda>kv. \<not> isArrayIndex (fst kv)) obj"

subsection \<open>The data view\<close>

text \<open>
  A column carries the names of its roles (\<open>Object.keys(column.roles)\<close>); a row is the
  list of its cells. \<open>metadata.objects\<close> is absent (\<open>NoObjects\<close>), or present without
  \<open>colourSelector.$instances\<close> (\<open>Objects None\<close>), or it holds the colours that the user
  chose, keyed by sector id (\<open>colourSelector.$instances\<close>, each instance with its
  \<open>fill.solid.color\<close>).
\<close>

record column =
  roles :: "string list"

datatype metadataObjects = NoObjects | Objects "(string \<times> string) list option"

record dataView =
  columns :: "column list"
  rows :: "jsval list list"
  objects :: metadataObjects

definition columnMap :: "column list \<Rightarrow> string option list" where
  "columnMap cols =
     map (\<lambda>column. case roles column of [] \<Rightarrow> None | r # _ \<Rightarrow> Some r) cols"

fun indexOfFrom :: "'a list \<Rightarrow> 'a \<Rightarrow> int \<Rightarrow> int" where
  "indexOfFrom [] v k = - 1"
| "indexOfFrom (w # ws) v k = (if w = v then k else indexOfFrom ws v (k + 1))"

definition indexOf :: "'a list \<Rightarrow> 'a \<Rightarrow> int" where
  "indexOf ws v = indexOfFrom ws v 0"

text \<open>\<open>v[i]\<close> on an array: \<open>undefined\<close> outside the array, also at \<open>-1\<close>.\<close>

definition cell :: "jsval list \<Rightarrow> int \<Rightarrow> jsval" where
  "cell v i = (if 0 \<le> i \<and> i < int (length v) then v ! nat i else JUndefined)"

subsection \<open>Sorting the rows\<close>

definition ringMap :: "(string \<times> ring) list" where
  "ringMap =
     [(''Accelerate'', Accelerate), (''Progress'', Progress),
      (''Monitor'', Monitor), (''Pause'', Pause)]"

text \<open>
  The iteratee \<open>function (o) { return ringMap[o[ringIndex]].order; }\<close>. Reading
  \<open>.order\<close> of \<open>undefined\<close> throws a TypeError; a member inherited from
  \<open>Object.prototype\<close> has no \<open>order\<close>, and the result is \<open>undefined\<close>, written \<open>\<infinity>\<close>.
\<close>

definition ringOrderOf :: "int \<Rightarrow> jsval list \<Rightarrow> error + enat" where
  "ringOrderOf ringIndex row =
     (case getProperty ringMap (toPropertyKey (cell row ringIndex)) of
        Own r \<Rightarrow> Inr (enat (ring_order r))
      | Inherited \<Rightarrow> Inr \<infinity>
      | Absent \<Rightarrow> Inl TypeError)"

text \<open>
  lodash's \<open>_.sortBy\<close> (an external library): the iteratee runs on every element, in
  order; the elements are then sorted by its results, ascending and stable, an
  \<open>undefined\<close> result after every number.
\<close>

fun criteria :: "('a \<Rightarrow> error + 'k) \<Rightarrow> 'a list \<Rightarrow> error + ('k \<times> 'a) list" where
  "criteria iteratee [] = Inr []"
| "criteria iteratee (v # vs) =
     (case iteratee v of
        Inl e \<Rightarrow> Inl e
      | Inr k \<Rightarrow>
          (case criteria iteratee vs of
             Inl e \<Rightarrow> Inl e
           | Inr ks \<Rightarrow> Inr ((k, v) # ks)))"

definition sortBy :: "'a list \<Rightarrow> ('a \<Rightarrow> error + 'k :: linorder) \<Rightarrow> error + 'a list" where
  "sortBy collection iteratee =
     (case criteria iteratee collection of
        Inl e \<Rightarrow> Inl e
      | Inr ks \<Rightarrow> Inr (map snd (sort_key fst ks)))"

subsection \<open>Building the sectors\<close>

text \<open>
  Modelled from the spec: what \<open>transformData\<close> uses of the classes whose source is
  missing. The id of a sector and of a blip is derived deterministically from its name
  (\<open>sectorIdOf\<close>, \<open>blipIdOf\<close>); \<open>getColour\<close> gives the colour of the \<open>n\<close>-th call of
  \<open>ColourGenerator.getColour\<close>, counted from 0.
\<close>

record classes =
  sectorIdOf :: "jsval \<Rightarrow> string"
  blipIdOf :: "jsval \<Rightarrow> string"
  getColour :: "nat \<Rightarrow> string"

text \<open>Modelled from the spec: \<open>new Sector(name)\<close>, no colour, no angles, no blips yet.\<close>

definition newSector :: "classes \<Rightarrow> jsval \<Rightarrow> 'r sector" where
  "newSector cls sectorName =
     \<lparr>sector_id = sectorIdOf cls sectorName, sector_name = sectorName, sector_colour = [],
      startAngle = 0, endAngle = 0, blips = []\<rparr>"

text \<open>
  Modelled from the spec: \<open>new Blip(name, ring, sector, isNew, description)\<close>; the
  back-reference to the sector is kept as the sector's key. No coordinates yet.
\<close>

definition newBlip :: "classes \<Rightarrow> jsval \<Rightarrow> 'r \<Rightarrow> string \<Rightarrow> jsval \<Rightarrow> jsval \<Rightarrow> 'r blip" where
  "newBlip cls n r sectorKey isNew description =
     \<lparr>blip_id = blipIdOf cls n, blip_name = n, blip_ring = r, blip_sector = sectorKey,
      blip_isNew = isNew, blip_description = description, blip_coordinates = None\<rparr>"

text \<open>Modelled from the spec: \<open>sector.addBlip\<close> and \<open>radar.addSector\<close> append.\<close>

definition addBlip :: "'r sector \<Rightarrow> 'r blip \<Rightarrow> 'r sector" where
  "addBlip s b = s\<lparr>blips := blips s @ [b]\<rparr>"

definition addSector :: "'r radar \<Rightarrow> 'r sector \<Rightarrow> 'r radar" where
  "addSector r s = r\<lparr>sectors := sectors r @ [s]\<rparr>"

text \<open>
  Modelled from the spec: \<open>radar.setSectorAngles()\<close>. With \<open>N\<close> sectors, sector \<open>i\<close>
  (counted from 0, in the order of \<open>radar.sectors\<close>) gets the arc from \<open>i 2\<pi> / N\<close> to
  \<open>(i + 1) 2\<pi> / N\<close>.
\<close>

definition setSectorAngles :: "'r radar \<Rightarrow> 'r radar" where
  "setSectorAngles r =
     (let N = length (sectors r)
      in r\<lparr>sectors :=
           map (\<lambda>(i, s). s\<lparr>startAngle := real i * 2 * pi / real N,
                             endAngle := (real i + 1) * 2 * pi / real N\<rparr>)
             (List.enumerate 0 (sectors r))\<rparr>)"

text \<open>
  The state of the \<open>forEach\<close> loop of \<open>transformData\<close>: the object \<open>sectors\<close> (its own
  properties in the order of their creation) and the number of colours that the
  \<open>colourGenerator\<close> has handed out.
\<close>

record 'r sectorsState =
  sectorsObject :: "(string \<times> 'r sector) list"
  coloursGenerated :: nat

text \<open>
  The branch \<open>if (!sectors[sectorName]) { ... }\<close>: a new sector and its colour. When
  \<open>metadata\<close> has \<open>objects\<close> but \<open>objects.colourSelector\<close> is missing, reading
  \<open>.$instances\<close> throws. The test \<open>id in $instances\<close> also holds for an id that is the
  name of a member of \<open>Object.prototype\<close>; that member has no \<open>fill\<close>, and reading
  \<open>.fill.solid\<close> throws.
\<close>

definition createSector ::
  "classes \<Rightarrow> metadataObjects \<Rightarrow> 'r sectorsState \<Rightarrow> jsval \<Rightarrow> error + 'r sectorsState" where
  "createSector cls objs st sectorName =
     (let key = toPropertyKey sectorName;
          s = newSector cls sectorName;
          generated = st\<lparr>sectorsObject :=
                          setProperty (sectorsObject st) key
                            (s\<lparr>sector_colour := getColour cls (coloursGenerated st)\<rparr>),
                        coloursGenerated := coloursGenerated st + 1\<rparr>
      in case objs of
           NoObjects \<Rightarrow> Inr generated
         | Objects None \<Rightarrow> Inl TypeError
         | Objects (Some instances) \<Rightarrow>
             (case getProperty instances (sector_id s) of
                Own colour \<Rightarrow>
                  Inr (st\<lparr>sectorsObject :=
                            setProperty (sectorsObject st) key (s\<lparr>sector_colour := colour\<rparr>)\<rparr>)
              | Inherited \<Rightarrow> Inl TypeError
              | Absent \<Rightarrow> Inr generated))"

text \<open>
  The body of the \<open>forEach\<close> loop for one row \<open>v\<close>. A sector name that is the name of a
  member of \<open>Object.prototype\<close> finds that member: no sector is created, and calling its
  \<open>addBlip\<close> throws a TypeError.
\<close>

definition addRow ::
  "classes \<Rightarrow> metadataObjects \<Rightarrow> int \<Rightarrow> int \<Rightarrow> int \<Rightarrow> int \<Rightarrow> int
     \<Rightarrow> ring property sectorsState \<Rightarrow> jsval list \<Rightarrow> error + ring property sectorsState" where
  "addRow cls objs nameIndex descriptionIndex sectorIndex ringIndex isNewIndex st v =
     (let n = cell v nameIndex;
          description = cell v descriptionIndex;
          sectorName = cell v sectorIndex;
          ringName = cell v ringIndex;
          isNew = cell v isNewIndex;
          key = toPropertyKey sectorName
      in case (case getProperty (sectorsObject st) key of
                 Absent \<Rightarrow> createSector cls objs st sectorName
               | _ \<Rightarrow> Inr st) of
           Inl e \<Rightarrow> Inl e
         | Inr st' \<Rightarrow>
             (case getProperty (sectorsObject st') key of
                Own s \<Rightarrow>
                  Inr (st'\<lparr>sectorsObject :=
                        setProperty (sectorsObject st') key
                          (addBlip s (newBlip cls n (getProperty ringMap (toPropertyKey ringName))
                             key isNew description))\<rparr>)
              | _ \<Rightarrow> Inl TypeError))"

fun forEachRow ::
  "('s \<Rightarrow> 'a \<Rightarrow> error + 's) \<Rightarrow> 'a list \<Rightarrow> 's \<Rightarrow> error + 's" where
  "forEachRow body [] st = Inr st"
| "forEachRow body (v # vs) st =
     (case body st v of
        Inl e \<Rightarrow> Inl e
      | Inr st' \<Rightarrow> forEachRow body vs st')"

definition transformData :: "classes \<Rightarrow> dataView \<Rightarrow> error + ring property radar" where
  "transformData cls dv =
     (let cm = columnMap (columns dv);
          nameIndex = indexOf cm (Some ''name'');
          descriptionIndex = indexOf cm (Some ''description'');
          sectorIndex = indexOf cm (Some ''sector'');
          ringIndex = indexOf cm (Some ''ring'');
          isNewIndex = indexOf cm (Some ''isNew'')
      in case sortBy (rows dv) (ringOrderOf ringIndex) of
           Inl e \<Rightarrow> Inl e
         | Inr sortedRows \<Rightarrow>
             (case forEachRow
                     (addRow cls (objects dv) nameIndex descriptionIndex sectorIndex
                        ringIndex isNewIndex)
                     sortedRows \<lparr>sectorsObject = [], coloursGenerated = 0\<rparr> of
                Inl e \<Rightarrow> Inl e
              | Inr st \<Rightarrow>
                  Inr (setSectorAngles
                         (foldl addSector newRadar (map snd (forIn (sectorsObject st)))))))"

subsection \<open>Rendering the sector layer and the sidebars\<close>

text \<open>
  What the \<open>plot\<close> methods append to the document: an element has a tag, attributes,
  styles, a text and children. The event handlers that the methods bind are not part of
  the tree. d3's \<open>text(v)\<close> writes nothing for \<open>undefined\<close> and \<open>null\<close>. The path of an
  arc and a translation are kept as their parameters.
\<close>

datatype attributeValue =
  Text string
  | Arc radii real real
  | Translate coordinates

datatype element =
  Element string "(string \<times> attributeValue) list" "(string \<times> string) list" string "element list"

fun textOf :: "jsval \<Rightarrow> string" where
  "textOf JUndefined = []"
| "textOf JNull = []"
| "textOf (JBool b) = (if b then ''true'' else ''false'')"
| "textOf (JStr s) = s"

text \<open>\<open>plotSector\<close> and \<open>plotSectors\<close>: the children of the group \<open>#sectors\<close>.\<close>

definition plotSector :: "'r visual \<Rightarrow> 'r sector \<Rightarrow> element" where
  "plotSector this s =
     Element ''g'' [(''id'', Text (''sector-'' @ sector_id s)), (''class'', Text ''sector'')] [] []
       (map (\<lambda>r. Element ''path''
                    [(''d'', Arc (calculateRingRadii this r) (startAngle s) (endAngle s)),
                     (''transform'', Translate (calculateCenter this))]
                    [(''fill'', ring_colour r)] [] [])
          (rings (radar this)))"

definition plotSectors :: "'r visual \<Rightarrow> element list" where
  "plotSectors this = map (plotSector this) (sectors (radar this))"

text \<open>
  \<open>plotLeftSidebar\<close>: the children of the left sidebar after the call (the old ones are
  removed first): one \<open>div\<close> per sector with its button and the list of its blips, then
  the container of the blip description.
\<close>

definition plotLeftSidebar :: "'r visual \<Rightarrow> element list" where
  "plotLeftSidebar this =
     map (\<lambda>s. Element ''div'' [(''id'', Text (''sidebar-'' @ sector_id s))] [] []
                 [Element ''button'' [] [(''background'', sector_colour s)]
                    (textOf (sector_name s)) [],
                  Element ''ul'' [] [(''display'', ''none'')] []
                    (map (\<lambda>b. Element ''li'' [(''class'', Text (''blip-'' @ blip_id b))] []
                                 (textOf (blip_name b)) [])
                       (blips s))])
       (sectors (radar this))
     @ [Element ''div'' [(''id'', Text ''blip-description'')] [] [] []]"

text \<open>\<open>plotRightSidebar\<close>: the children of the right sidebar after the call.\<close>

definition plotRightSidebar :: "'r visual \<Rightarrow> element list" where
  "plotRightSidebar this =
     [Element ''ul'' [] [] []
        (map (\<lambda>r. Element ''li'' [] [(''color'', ring_colour r)] []
                     [Element ''span'' [] [] (ring_name r) []])
           (rings (radar this)))]"

subsection \<open>Notions used to state the properties of the transform\<close>

text \<open>The half-open arc of a sector, from its start angle up to its end angle.\<close>

definition arc :: "'r sector \<Rightarrow> real set" where
  "arc s = {startAngle s ..< endAngle s}"

text \<open>The sectors of a radar in its order, each with its key and its two angles.\<close>

definition sectorArcs :: "'r radar \<Rightarrow> (string \<times> real \<times> real) list" where
  "sectorArcs r = map (\<lambda>s. (toPropertyKey (sector_name s), startAngle s, endAngle s)) (sectors r)"

text \<open>The elements of a list in the order of their first appearance.\<close>

definition firstSeen :: "'a list \<Rightarrow> 'a list" where
  "firstSeen ks = rev (remdups (rev ks))"

text \<open>The order of \<open>for ... in\<close> on keys alone.\<close>

definition forInKeys :: "string list \<Rightarrow> string list" where
  "forInKeys ks = sort_key indexValue (filter isArrayIndex ks) @ filter (\<lambda>k. \<not> isArrayIndex k) ks"

text \<open>
  For the columns \<open>cols\<close> and a row \<open>v\<close>: the key under which the row's sector is stored,
  the result of the sort's iteratee when it does not throw, and the blip that the loop
  body constructs for the row.
\<close>

definition sectorKeyOf :: "column list \<Rightarrow> jsval list \<Rightarrow> string" where
  "sectorKeyOf cols v = toPropertyKey (cell v (indexOf (columnMap cols) (Some ''sector'')))"

definition ringRank :: "column list \<Rightarrow> jsval list \<Rightarrow> enat" where
  "ringRank cols v =
     (case getProperty ringMap (toPropertyKey (cell v (indexOf (columnMap cols) (Some ''ring'')))) of
        Own r \<Rightarrow> enat (ring_order r)
      | _ \<Rightarrow> \<infinity>)"

definition blipOf :: "classes \<Rightarrow> column list \<Rightarrow> jsval list \<Rightarrow> ring property blip" where
  "blipOf cls cols v =
     newBlip cls (cell v (indexOf (columnMap cols) (Some ''name'')))
       (getProperty ringMap (toPropertyKey (cell v (indexOf (columnMap cols) (Some ''ring'')))))
       (sectorKeyOf cols v)
       (cell v (indexOf (columnMap cols) (Some ''isNew'')))
       (cell v (indexOf (columnMap cols) (Some ''description'')))"

text \<open>
  The invariant of the \<open>forEach\<close> loop of \<open>transformData\<close> after the rows \<open>vs\<close>: the
  object \<open>sectors\<close> has one property per sector key, in the order of first appearance;
  the sector stored under a key has that key's name and holds the blips of the rows with
  that key, in the order of the rows.
\<close>

definition sectorsInvariant ::
  "classes \<Rightarrow> column list \<Rightarrow> ring property sectorsState \<Rightarrow> jsval list list \<Rightarrow> bool" where
  "sectorsInvariant cls cols st vs =
     (map fst (sectorsObject st) = firstSeen (map (sectorKeyOf cols) vs)
      \<and> (\<forall>k s. map_of (sectorsObject st) k = Some s \<longrightarrow>
             toPropertyKey (sector_name s) = k
             \<and> blips s = map (blipOf cls cols) (filter (\<lambda>v. sectorKeyOf cols v = k) vs)))"

subsection \<open>Example inputs\<close>

text \<open>
  A visual right after an update with no rows (four rings, no sector), on a surface of
  640 by 480 with a padding of 8; and a sector with given angles and no blips.
\<close>

definition exampleVisual :: "ring visual" where
  "exampleVisual =
     \<lparr>radar = newRadar, containerWidth = 640, containerHeight = 480, containerPadding = 8,
      updateCount = 0\<rparr>"

definition wedge :: "real \<Rightarrow> real \<Rightarrow> ring sector" where
  "wedge a b =
     \<lparr>sector_id = ''s'', sector_name = JStr ''s'', sector_colour = ''#336699'',
      startAngle = a, endAngle = b, blips = []\<rparr>"

text \<open>
  The table columns of a well-formed data view, one role each; and the classes with the
  name as id and one colour for every call.
\<close>

definition roleColumns :: "column list" where
  "roleColumns =
     [\<lparr>roles = [''name'']\<rparr>, \<lparr>roles = [''description'']\<rparr>, \<lparr>roles = [''sector'']\<rparr>,
      \<lparr>roles = [''ring'']\<rparr>, \<lparr>roles = [''isNew'']\<rparr>]"

definition plainClasses :: classes where
  "plainClasses =
     \<lparr>sectorIdOf = toPropertyKey, blipIdOf = toPropertyKey, getColour = (\<lambda>n. ''#808080'')\<rparr>"

definition tableRow :: "string \<Rightarrow> string \<Rightarrow> string \<Rightarrow> jsval list" where
  "tableRow n sectorName ringName =
     [JStr n, JStr [], JStr sectorName, JStr ringName, JBool False]"

text \<open>
  The example of the specification: the rows A (sector X, Accelerate), B (sector X,
  Pause) and C (sector Y, Progress), and the Radar that the transform builds from them.
\<close>

definition specExample :: dataView where
  "specExample =
     \<lparr>columns = roleColumns,
      rows = [tableRow ''A'' ''X'' ''Accelerate'', tableRow ''B'' ''X'' ''Pause'',
              tableRow ''C'' ''Y'' ''Progress''],
      objects = NoObjects\<rparr>"

definition specExampleRadar :: "ring property radar" where
  "specExampleRadar =
     \<lparr>sectors =
        [\<lparr>sector_id = ''X'', sector_name = JStr ''X'', sector_colour = ''#808080'',
          startAngle = 0, endAngle = pi,
          blips = [\<lparr>blip_id = ''A'', blip_name = JStr ''A'', blip_ring = Own Accelerate,
                    blip_sector = ''X'', blip_isNew = JBool False,
                    blip_description = JStr [], blip_coordinates = None\<rparr>,
                   \<lparr>blip_id = ''B'', blip_name = JStr ''B'', blip_ring = Own Pause,
                    blip_sector = ''X'', blip_isNew = JBool False,
                    blip_description = JStr [], blip_coordinates = None\<rparr>]\<rparr>,
         \<lparr>sector_id = ''Y'', sector_name = JStr ''Y'', sector_colour = ''#808080'',
          startAngle = pi, endAngle = 2 * pi,
          blips = [\<lparr>blip_id = ''C'', blip_name = JStr ''C'', blip_ring = Own Progress,
                    blip_sector = ''Y'', blip_isNew = JBool False,
                    blip_description = JStr [], blip_coordinates = None\<rparr>]\<rparr>],
      rings = fixedRings\<rparr>"

text \<open>
  A radar of one sector (the arc from 0 to \<open>\<pi>\<close>) with a blip in the ring Accelerate
  and a blip in the ring Pause.
\<close>

definition exampleBlip :: "string \<Rightarrow> ring \<Rightarrow> ring blip" where
  "exampleBlip n r =
     \<lparr>blip_id = n, blip_name = JStr n, blip_ring = r, blip_sector = ''s'',
      blip_isNew = JBool False, blip_description = JStr [], blip_coordinates = None\<rparr>"

definition twoBlips :: "ring visual" where
  "twoBlips =
     exampleVisual\<lparr>radar := newRadar\<lparr>sectors :=
       [(wedge 0 pi)\<lparr>blips := [exampleBlip ''A'' Accelerate, exampleBlip ''B'' Pause]\<rparr>]\<rparr>\<rparr>"

section \<open>Ring radii\<close>

lemma calculateRingRadii_inner:
  "inner (calculateRingRadii this r) =
     getViewBoxSize this / 2 * (real (ring_order r) - 1) / real (length (rings (radar this)))"
  by (simp add: calculateRingRadii_def Let_def)

lemma calculateRingRadii_outer:
  "outer (calculateRingRadii this r) =
     getViewBoxSize this / 2 * real (ring_order r) / real (length (rings (radar this)))"
  by (simp add: calculateRingRadii_def Let_def)

text \<open>
  C4. With \<open>K\<close> the number of rings of the radar and \<open>R\<close> half the view box, the ring of
  order \<open>k\<close> has inner radius \<open>R (k - 1) / K\<close> and outer radius \<open>R k / K\<close>. Hence the inner
  radius of the ring of order \<open>k\<close> (\<open>2 \<le> k \<le> K\<close>) is the outer radius of the ring of order
  \<open>k - 1\<close>, the outer radius of the ring of order \<open>K\<close> is \<open>R\<close>, every ring is \<open>R / K\<close>
  wide, and the ring of order 1 has inner radius 0.
\<close>

theorem calculateRingRadii_annuli:
  fixes this :: "'r visual"
  assumes K: "K = length (rings (radar this))" and pos: "0 < K"
    and R: "R = getViewBoxSize this / 2"
  shows "inner (calculateRingRadii this r) = R * (real (ring_order r) - 1) / real K
       \<and> outer (calculateRingRadii this r) = R * real (ring_order r) / real K
       \<and> (2 \<le> ring_order r \<and> ring_order r \<le> K \<and> ring_order r' = ring_order r - 1 \<longrightarrow>
             inner (calculateRingRadii this r) = outer (calculateRingRadii this r'))
       \<and> (ring_order r = K \<longrightarrow> outer (calculateRingRadii this r) = R)
       \<and> outer (calculateRingRadii this r) - inner (calculateRingRadii this r) = R / real K
       \<and> (ring_order r = 1 \<longrightarrow> inner (calculateRingRadii this r) = 0)"
proof (intro conjI impI)
  show "inner (calculateRingRadii this r) = R * (real (ring_order r) - 1) / real K"
    unfolding K R by (simp add: calculateRingRadii_inner)
  show "outer (calculateRingRadii this r) = R * real (ring_order r) / real K"
    unfolding K R by (simp add: calculateRingRadii_outer)
  show "inner (calculateRingRadii this r) = outer (calculateRingRadii this r')"
    if "2 \<le> ring_order r \<and> ring_order r \<le> K \<and> ring_order r' = ring_order r - 1"
  proof -
    from that have "real (ring_order r') = real (ring_order r) - 1"
      by simp
    then show ?thesis
      by (simp add: calculateRingRadii_inner calculateRingRadii_outer)
  qed
  show "outer (calculateRingRadii this r) = R" if "ring_order r = K"
    using that pos unfolding K R by (simp add: calculateRingRadii_outer)
  show "outer (calculateRingRadii this r) - inner (calculateRingRadii this r) = R / real K"
    using pos unfolding K R
    by (simp add: calculateRingRadii_inner calculateRingRadii_outer field_simps)
  show "inner (calculateRingRadii this r) = 0" if "ring_order r = 1"
    using that by (simp add: calculateRingRadii_inner)
qed

text \<open>
  The theorem at the radar of an update: four rings, \<open>R = 50\<close>, the rings Progress
  (\<open>k = 2\<close>) and Accelerate (\<open>k - 1 = 1\<close>).
\<close>

theorem calculateRingRadii_annuli_witness:
  "inner (calculateRingRadii
       \<lparr>radar = (newRadar :: ring radar), containerWidth = 640, containerHeight = 480,
        containerPadding = 8, updateCount = 0\<rparr> (fixedRings ! 1)) = 50 * (2 - 1) / 4
   \<and> outer (calculateRingRadii
       \<lparr>radar = (newRadar :: ring radar), containerWidth = 640, containerHeight = 480,
        containerPadding = 8, updateCount = 0\<rparr> (fixedRings ! 1)) = 50 * 2 / 4
   \<and> inner (calculateRingRadii
       \<lparr>radar = (newRadar :: ring radar), containerWidth = 640, containerHeight = 480,
        containerPadding = 8, updateCount = 0\<rparr> (fixedRings ! 1))
     = outer (calculateRingRadii
       \<lparr>radar = (newRadar :: ring radar), containerWidth = 640, containerHeight = 480,
        containerPadding = 8, updateCount = 0\<rparr> (fixedRings ! 0))"
  using calculateRingRadii_annuli
    [of 4 "\<lparr>radar = (newRadar :: ring radar), containerWidth = 640, containerHeight = 480,
        containerPadding = 8, updateCount = 0\<rparr>" 50 "fixedRings ! 1" "fixedRings ! 0"]
  by (simp add: newRadar_def fixedRings_def getViewBoxSize_def Accelerate_def Progress_def)

section \<open>The placement loop\<close>

lemma placementLoop_unfold:
  "placementLoop this rnd mina maxa mind maxd al n i =
     (if 10 \<le> n then (candidate rnd mina maxa mind maxd i, Suc n, Suc (Suc i))
      else if \<not> coordinatesAreFree this (candidate rnd mina maxa mind maxd i) al
        then placementLoop this rnd mina maxa mind maxd al (Suc n) (Suc (Suc i))
        else (candidate rnd mina maxa mind maxd i, Suc n, Suc (Suc i)))"
  by (subst placementLoop.simps) (simp add: Let_def candidate_def)

lemma placementLoop_exhausted:
  "10 \<le> n \<Longrightarrow> placementLoop this rnd mina maxa mind maxd al n i =
     (candidate rnd mina maxa mind maxd i, Suc n, Suc (Suc i))"
  by (subst placementLoop_unfold) simp

lemma placementLoop_accept:
  "n < 10 \<Longrightarrow> coordinatesAreFree this (candidate rnd mina maxa mind maxd i) al \<Longrightarrow>
     placementLoop this rnd mina maxa mind maxd al n i =
       (candidate rnd mina maxa mind maxd i, Suc n, Suc (Suc i))"
  by (subst placementLoop_unfold) simp

lemma placementLoop_retry:
  "n < 10 \<Longrightarrow> \<not> coordinatesAreFree this (candidate rnd mina maxa mind maxd i) al \<Longrightarrow>
     placementLoop this rnd mina maxa mind maxd al n i =
       placementLoop this rnd mina maxa mind maxd al (Suc n) (Suc (Suc i))"
  by (subst placementLoop_unfold) simp

lemma placementLoop_cases:
  assumes "10 \<le> n \<Longrightarrow> P (candidate rnd mina maxa mind maxd i, Suc n, Suc (Suc i))"
    and "n < 10 \<Longrightarrow> coordinatesAreFree this (candidate rnd mina maxa mind maxd i) al \<Longrightarrow>
           P (candidate rnd mina maxa mind maxd i, Suc n, Suc (Suc i))"
    and "n < 10 \<Longrightarrow> \<not> coordinatesAreFree this (candidate rnd mina maxa mind maxd i) al \<Longrightarrow>
           P (placementLoop this rnd mina maxa mind maxd al (Suc n) (Suc (Suc i)))"
  shows "P (placementLoop this rnd mina maxa mind maxd al n i)"
proof (cases "10 \<le> n")
  case True
  show ?thesis
    unfolding placementLoop_exhausted [OF True] by (rule assms(1) [OF True])
next
  case False
  then have n: "n < 10" by simp
  show ?thesis
  proof (cases "coordinatesAreFree this (candidate rnd mina maxa mind maxd i) al")
    case True
    show ?thesis
      unfolding placementLoop_accept [OF n True] by (rule assms(2) [OF n True])
  next
    case False
    show ?thesis
      unfolding placementLoop_retry [OF n False] by (rule assms(3) [OF n False])
  qed
qed

lemma placementLoop_induct_candidate:
  fixes P :: "nat \<Rightarrow> nat \<Rightarrow> bool"
  assumes step: "\<And>n i. (n < 10 \<Longrightarrow> P (Suc n) (Suc (Suc i))) \<Longrightarrow> P n i"
  shows "P n i"
proof (induction n arbitrary: i rule: measure_induct_rule [of "\<lambda>n. 11 - n"])
  case (less n)
  have "P (Suc n) (Suc (Suc i))" if "n < 10"
    by (rule less.IH) (use that in simp)
  then show ?case by (rule step)
qed

lemma placementLoop_free_or_exhausted:
  "10 < fst (snd (placementLoop this rnd mina maxa mind maxd al n i))
     \<or> coordinatesAreFree this (fst (placementLoop this rnd mina maxa mind maxd al n i)) al"
proof (induction n i rule: placementLoop_induct_candidate)
  case (1 n i)
  show ?case
  proof (rule placementLoop_cases [of n _ rnd mina maxa mind maxd i this al])
    assume "n < 10"
    then show "10 < fst (snd (placementLoop this rnd mina maxa mind maxd al (Suc n) (Suc (Suc i))))
     \<or> coordinatesAreFree this (fst (placementLoop this rnd mina maxa mind maxd al (Suc n) (Suc (Suc i)))) al"
      by (rule "1.IH")
  qed simp_all
qed

lemma placementLoop_is_candidate:
  "\<exists>k. fst (placementLoop this rnd mina maxa mind maxd al n i) = candidate rnd mina maxa mind maxd k"
proof (induction n i rule: placementLoop_induct_candidate)
  case (1 n i)
  have here: "\<exists>k. fst (candidate rnd mina maxa mind maxd i, Suc n, Suc (Suc i)) =
      candidate rnd mina maxa mind maxd k"
    by (rule exI [of _ i]) simp
  show ?case
    by (rule placementLoop_cases [of n _ rnd mina maxa mind maxd i this al])
      (rule here, rule here, rule "1.IH")
qed

lemma placementLoop_attempts:
  "n < fst (snd (placementLoop this rnd mina maxa mind maxd al n i))
     \<and> (n \<le> 10 \<longrightarrow> fst (snd (placementLoop this rnd mina maxa mind maxd al n i)) \<le> 11)"
proof (induction n i rule: placementLoop_induct_candidate)
  case (1 n i)
  show ?case
  proof (rule placementLoop_cases [of n _ rnd mina maxa mind maxd i this al])
    assume "n < 10"
    from "1.IH" [OF this] this
    show "n < fst (snd (placementLoop this rnd mina maxa mind maxd al (Suc n) (Suc (Suc i))))
     \<and> (n \<le> 10 \<longrightarrow> fst (snd (placementLoop this rnd mina maxa mind maxd al (Suc n) (Suc (Suc i)))) \<le> 11)"
      by simp
  qed simp_all
qed

lemma placementLoop_draws:
  "snd (snd (placementLoop this rnd mina maxa mind maxd al n i)) + 2 * n =
     i + 2 * fst (snd (placementLoop this rnd mina maxa mind maxd al n i))"
proof (induction n i rule: placementLoop_induct_candidate)
  case (1 n i)
  show ?case
  proof (rule placementLoop_cases [of n _ rnd mina maxa mind maxd i this al])
    assume "n < 10"
    from "1.IH" [OF this]
    show "snd (snd (placementLoop this rnd mina maxa mind maxd al (Suc n) (Suc (Suc i)))) + 2 * n =
     i + 2 * fst (snd (placementLoop this rnd mina maxa mind maxd al (Suc n) (Suc (Suc i))))"
      by simp
  qed simp_all
qed

lemma placementLoop_blocked:
  assumes blocked: "\<And>k. \<not> coordinatesAreFree this (candidate rnd mina maxa mind maxd k) al"
  shows "n \<le> 10 \<Longrightarrow> placementLoop this rnd mina maxa mind maxd al n i =
       (candidate rnd mina maxa mind maxd (i + 2 * (10 - n)), 11, i + 2 * (11 - n))"
proof (induction n i rule: placementLoop_induct_candidate)
  case (1 n i)
  show ?case
  proof (cases "n = 10")
    case True
    then show ?thesis by (simp add: placementLoop_exhausted)
  next
    case False
    with "1.prems" have n: "n < 10" by simp
    have eq: "Suc (Suc i) + 2 * (10 - Suc n) = i + 2 * (10 - n)"
      "Suc (Suc i) + 2 * (11 - Suc n) = i + 2 * (11 - n)" using n by simp_all
    have "placementLoop this rnd mina maxa mind maxd al n i =
        placementLoop this rnd mina maxa mind maxd al (Suc n) (Suc (Suc i))"
      by (rule placementLoop_retry [OF n blocked])
    also have "\<dots> = (candidate rnd mina maxa mind maxd (Suc (Suc i) + 2 * (10 - Suc n)), 11,
        Suc (Suc i) + 2 * (11 - Suc n))"
      using n by - (rule "1.IH", simp_all)
    finally show ?thesis unfolding eq .
  qed
qed

lemma coordinatesAreFree_this:
  "coordinatesAreFree this' c al = coordinatesAreFree this c al"
  by (simp add: coordinatesAreFree_def calculateBlipRadius_def)

lemma placementLoop_this:
  "placementLoop this' rnd mina maxa mind maxd al n i =
     placementLoop this rnd mina maxa mind maxd al n i"
proof (induction n i rule: placementLoop_induct_candidate)
  case (1 n i)
  show ?case
  proof (rule placementLoop_cases [of n _ rnd mina maxa mind maxd i this al])
    assume "10 \<le> n"
    then show "placementLoop this' rnd mina maxa mind maxd al n i =
      (candidate rnd mina maxa mind maxd i, Suc n, Suc (Suc i))"
      by (rule placementLoop_exhausted)
  next
    assume n: "n < 10" and "coordinatesAreFree this (candidate rnd mina maxa mind maxd i) al"
    then have "coordinatesAreFree this' (candidate rnd mina maxa mind maxd i) al"
      using coordinatesAreFree_this [of this' "candidate rnd mina maxa mind maxd i" al this]
      by blast
    with n show "placementLoop this' rnd mina maxa mind maxd al n i =
      (candidate rnd mina maxa mind maxd i, Suc n, Suc (Suc i))"
      by (rule placementLoop_accept)
  next
    assume n: "n < 10" and "\<not> coordinatesAreFree this (candidate rnd mina maxa mind maxd i) al"
    then have "\<not> coordinatesAreFree this' (candidate rnd mina maxa mind maxd i) al"
      using coordinatesAreFree_this [of this' "candidate rnd mina maxa mind maxd i" al this]
      by blast
    with n have "placementLoop this' rnd mina maxa mind maxd al n i =
      placementLoop this' rnd mina maxa mind maxd al (Suc n) (Suc (Suc i))"
      by (rule placementLoop_retry)
    with "1.IH" [OF n] show "placementLoop this' rnd mina maxa mind maxd al n i =
      placementLoop this rnd mina maxa mind maxd al (Suc n) (Suc (Suc i))"
      by simp
  qed
qed

lemma calculateRingRadii_this:
  "rings (radar this') = rings (radar this) \<Longrightarrow>
     calculateRingRadii this' r = calculateRingRadii this r"
  by (simp add: calculateRingRadii_def getViewBoxSize_def)

lemma blipPlacement_this:
  "rings (radar this') = rings (radar this) \<Longrightarrow>
     blipPlacement this' rnd s r al i = blipPlacement this rnd s r al i"
  by (simp add: blipPlacement_def Let_def calculateRingRadii_this [of this' this]
      placementLoop_this [of this' _ _ _ _ _ _ _ _ this])

text \<open>
  C10. The view box is 100 wide, the centre is \<open>(50, 50)\<close>, the ring radii are fractions
  of 50, and neither the radii nor the coordinates of a blip depend on the width, the
  height or the padding of the drawing surface.
\<close>

theorem viewBox_fixed_coordinate_space:
  "getViewBoxSize this = 100
   \<and> calculateCenter this = \<lparr>point_x = 50, point_y = 50\<rparr>
   \<and> inner (calculateRingRadii this r) = 50 * (real (ring_order r) - 1) / real (length (rings (radar this)))
   \<and> outer (calculateRingRadii this r) = 50 * real (ring_order r) / real (length (rings (radar this)))
   \<and> getViewBoxSize (this\<lparr>containerWidth := w, containerHeight := h, containerPadding := p\<rparr>) = getViewBoxSize this
   \<and> calculateCenter (this\<lparr>containerWidth := w, containerHeight := h, containerPadding := p\<rparr>) = calculateCenter this
   \<and> calculateRingRadii (this\<lparr>containerWidth := w, containerHeight := h, containerPadding := p\<rparr>) r
       = calculateRingRadii this r
   \<and> generateBlipCoordinates (this\<lparr>containerWidth := w, containerHeight := h, containerPadding := p\<rparr>)
         rnd s r al i
       = generateBlipCoordinates this rnd s r al i"
proof (intro conjI)
  show "generateBlipCoordinates (this\<lparr>containerWidth := w, containerHeight := h, containerPadding := p\<rparr>)
         rnd s r al i = generateBlipCoordinates this rnd s r al i"
    unfolding generateBlipCoordinates_def
    by (subst blipPlacement_this [of _ this]) simp_all
qed (simp_all add: getViewBoxSize_def calculateCenter_def calculateRingRadii_def Let_def)

section \<open>Distances\<close>

lemma distanceBetweenPoints_sqrt:
  "distanceBetweenPoints a b =
     sqrt ((point_x a - point_x b) ^ 2 + (point_y a - point_y b) ^ 2)"
  by (simp add: distanceBetweenPoints_def powr_half_sqrt)

lemma distanceBetweenPoints_commute:
  "distanceBetweenPoints a b = distanceBetweenPoints b a"
  by (simp add: distanceBetweenPoints_sqrt power2_commute)

lemma distanceBetweenPoints_same_angle:
  "distanceBetweenPoints (polarToCartesian \<lparr>distance = d, angle = a\<rparr>)
     (polarToCartesian \<lparr>distance = d', angle = a\<rparr>) = \<bar>d - d'\<bar>"
proof -
  have "(d * sin a - d' * sin a) ^ 2 + (d * cos a - d' * cos a) ^ 2
      = ((d - d') * sin a) ^ 2 + ((d - d') * cos a) ^ 2"
    by (simp add: left_diff_distrib)
  also have "\<dots> = (d - d') ^ 2 * ((sin a) ^ 2 + (cos a) ^ 2)"
    by (simp only: power_mult_distrib distrib_left)
  also have "\<dots> = (d - d') ^ 2" by simp
  finally show ?thesis
    by (simp add: distanceBetweenPoints_sqrt polarToCartesian_def)
qed

section \<open>The eleventh candidate\<close>

lemma crowded_blocked:
  assumes "0 \<le> rnd (Suc k)" "rnd (Suc k) < 1"
  shows "\<not> coordinatesAreFree this (candidate rnd (pi / 16) (pi / 16) 5.625 11.25 k)
            [polarToCartesian \<lparr>distance = 8.4375, angle = pi / 16\<rparr>]"
proof -
  have "\<bar>rnd (Suc k) * 5.625 + 5.625 - 8.4375\<bar> \<le> 4.2"
    using assms unfolding abs_le_iff by (simp add: field_simps)
  then show ?thesis
    by (simp add: coordinatesAreFree_def calculateBlipRadius_def candidate_def
        distanceBetweenPoints_same_angle)
qed

lemma crowded_placement:
  "blipPlacement exampleVisual rnd (wedge 0 (pi / 8)) Accelerate al i =
     placementLoop exampleVisual rnd (pi / 16) (pi / 16) 5.625 11.25 al 0 i"
  by (simp add: blipPlacement_def Let_def calculateRingRadii_def getViewBoxSize_def
      exampleVisual_def newRadar_def fixedRings_def wedge_def Accelerate_def)

text \<open>
  C2, at a failing input: sector 0 of a radar of 16 sectors (the arc from 0 to \<open>\<pi>/8\<close>),
  the ring Accelerate, and one blip already placed in the middle of the ring on the
  sector's bisector. Whatever \<open>Math.random\<close> returns, each of the first ten
  candidates is within \<open>4.2\<close> of that blip, an eleventh candidate is drawn (22 random
  numbers in all), and the eleventh is returned.
\<close>

theorem generateBlipCoordinates_eleventh_candidate:
  assumes "\<forall>k. 0 \<le> rnd k \<and> rnd k < 1"
  shows "attemptsOf exampleVisual rnd (wedge 0 (pi / 8)) Accelerate
           [polarToCartesian \<lparr>distance = 8.4375, angle = pi / 16\<rparr>] 0 = 11
       \<and> snd (snd (blipPlacement exampleVisual rnd (wedge 0 (pi / 8)) Accelerate
           [polarToCartesian \<lparr>distance = 8.4375, angle = pi / 16\<rparr>] 0)) = 22
       \<and> generateBlipCoordinates exampleVisual rnd (wedge 0 (pi / 8)) Accelerate
           [polarToCartesian \<lparr>distance = 8.4375, angle = pi / 16\<rparr>] 0
         = polarToCartesian \<lparr>distance = rnd 21 * 5.625 + 5.625, angle = pi / 16\<rparr>"
proof -
  have "placementLoop exampleVisual rnd (pi / 16) (pi / 16) 5.625 11.25
          [polarToCartesian \<lparr>distance = 8.4375, angle = pi / 16\<rparr>] 0 0 =
        (candidate rnd (pi / 16) (pi / 16) 5.625 11.25 (0 + 2 * (10 - 0)), 11, 0 + 2 * (11 - 0))"
  proof (rule placementLoop_blocked)
    fix k
    show "\<not> coordinatesAreFree exampleVisual (candidate rnd (pi / 16) (pi / 16) 5.625 11.25 k)
            [polarToCartesian \<lparr>distance = 8.4375, angle = pi / 16\<rparr>]"
      by (rule crowded_blocked) (use assms in simp_all)
  qed simp
  then show ?thesis
    by (simp add: attemptsOf_def generateBlipCoordinates_def crowded_placement candidate_def)
qed

text \<open>The theorem with \<open>Math.random\<close> returning \<open>1/2\<close>.\<close>

theorem generateBlipCoordinates_eleventh_candidate_witness:
  "attemptsOf exampleVisual (\<lambda>k. 1 / 2) (wedge 0 (pi / 8)) Accelerate
           [polarToCartesian \<lparr>distance = 8.4375, angle = pi / 16\<rparr>] 0 = 11"
  using generateBlipCoordinates_eleventh_candidate [of "\<lambda>k. 1 / 2"] by simp

section \<open>Blips and their sector\<close>

lemma polarToCartesian_inject:
  assumes d: "0 < d" "0 < d'" and a: "0 \<le> a" "a \<le> pi" and a': "0 \<le> a'" "a' \<le> pi"
    and eq: "polarToCartesian \<lparr>distance = d, angle = a\<rparr>
           = polarToCartesian \<lparr>distance = d', angle = a'\<rparr>"
  shows "d = d' \<and> a = a'"
proof -
  from eq have s: "d * sin a = d' * sin a'" and c: "d * cos a = d' * cos a'"
    by (simp_all add: polarToCartesian_def)
  have "d ^ 2 = (d * sin a) ^ 2 + (d * cos a) ^ 2"
    by (simp add: power_mult_distrib distrib_left [symmetric])
  also have "\<dots> = (d' * sin a') ^ 2 + (d' * cos a') ^ 2"
    by (simp only: s c)
  also have "\<dots> = d' ^ 2"
    by (simp add: power_mult_distrib distrib_left [symmetric])
  finally have dd: "d = d'"
    using d by (simp add: power2_eq_iff_nonneg)
  with c d have "cos a = cos a'" by simp
  with a a' have "a = a'" by (rule_tac cos_inj_pi) simp_all
  with dd show ?thesis by simp
qed

lemma wedge_angles: "startAngle (wedge a b) = a" "endAngle (wedge a b) = b"
  by (simp_all add: wedge_def)

lemma coordinatesAreFree_Nil: "coordinatesAreFree this c []"
  by (simp add: coordinatesAreFree_def)

lemma narrow_placement:
  "blipPlacement exampleVisual rnd (wedge 0 (pi / 32)) Accelerate [] i =
     (candidate rnd (pi / 16) (pi / 32 - pi / 16) 5.625 11.25 i, Suc 0, Suc (Suc i))"
proof -
  have "blipPlacement exampleVisual rnd (wedge 0 (pi / 32)) Accelerate [] i =
      placementLoop exampleVisual rnd (pi / 16) (pi / 32 - pi / 16) 5.625 11.25 [] 0 i"
    by (simp add: blipPlacement_def Let_def calculateRingRadii_def getViewBoxSize_def
      exampleVisual_def newRadar_def fixedRings_def wedge_def Accelerate_def)
  also have "\<dots> = (candidate rnd (pi / 16) (pi / 32 - pi / 16) 5.625 11.25 i, Suc 0, Suc (Suc i))"
    by (rule placementLoop_accept) (simp_all add: coordinatesAreFree_Nil)
  finally show ?thesis .
qed

lemma narrow_coordinates:
  "generateBlipCoordinates exampleVisual (\<lambda>k. 1 / 4) (wedge 0 (pi / 32)) Accelerate [] 0 =
     polarToCartesian \<lparr>distance = 7.03125, angle = 5 * pi / 128\<rparr>"
  by (simp add: generateBlipCoordinates_def narrow_placement candidate_def)

text \<open>
  C3, at a failing input: sector 0 of a radar of 64 sectors (the arc from 0 to \<open>\<pi>/32\<close>),
  the ring Accelerate, no blip placed yet, and \<open>Math.random\<close> returning \<open>1/4\<close>. The
  first candidate is accepted; it lies at the angle \<open>5\<pi>/128\<close>, beyond the end of the
  sector. The range \<open>[startAngle + \<pi>/16, endAngle - \<pi>/16]\<close> is empty, so the coordinates
  have no polar form with an angle in it; and they have no polar form with a positive
  distance and an angle within the sector either.
\<close>

theorem generateBlipCoordinates_outside_narrow_sector:
  "generateBlipCoordinates exampleVisual (\<lambda>k. 1 / 4) (wedge 0 (pi / 32)) Accelerate [] 0 =
     polarToCartesian \<lparr>distance = 7.03125, angle = 5 * pi / 128\<rparr>
   \<and> endAngle (wedge 0 (pi / 32)) < 5 * pi / 128
   \<and> \<not> (\<exists>d a. startAngle (wedge 0 (pi / 32)) + pi / 16 \<le> a
           \<and> a \<le> endAngle (wedge 0 (pi / 32)) - pi / 16
           \<and> generateBlipCoordinates exampleVisual (\<lambda>k. 1 / 4) (wedge 0 (pi / 32)) Accelerate [] 0
               = polarToCartesian \<lparr>distance = d, angle = a\<rparr>)
   \<and> \<not> (\<exists>d a. 0 < d \<and> startAngle (wedge 0 (pi / 32)) \<le> a \<and> a \<le> endAngle (wedge 0 (pi / 32))
           \<and> generateBlipCoordinates exampleVisual (\<lambda>k. 1 / 4) (wedge 0 (pi / 32)) Accelerate [] 0
               = polarToCartesian \<lparr>distance = d, angle = a\<rparr>)"
proof (intro conjI)
  show "generateBlipCoordinates exampleVisual (\<lambda>k. 1 / 4) (wedge 0 (pi / 32)) Accelerate [] 0 =
     polarToCartesian \<lparr>distance = 7.03125, angle = 5 * pi / 128\<rparr>"
    by (rule narrow_coordinates)
  show "endAngle (wedge 0 (pi / 32)) < 5 * pi / 128"
    by (simp add: wedge_angles)
  show "\<not> (\<exists>d a. startAngle (wedge 0 (pi / 32)) + pi / 16 \<le> a
           \<and> a \<le> endAngle (wedge 0 (pi / 32)) - pi / 16
           \<and> generateBlipCoordinates exampleVisual (\<lambda>k. 1 / 4) (wedge 0 (pi / 32)) Accelerate [] 0
               = polarToCartesian \<lparr>distance = d, angle = a\<rparr>)"
  proof
    assume "\<exists>d a. startAngle (wedge 0 (pi / 32)) + pi / 16 \<le> a
           \<and> a \<le> endAngle (wedge 0 (pi / 32)) - pi / 16
           \<and> generateBlipCoordinates exampleVisual (\<lambda>k. 1 / 4) (wedge 0 (pi / 32)) Accelerate [] 0
               = polarToCartesian \<lparr>distance = d, angle = a\<rparr>"
    then obtain a :: real where "pi / 16 \<le> a" "a \<le> pi / 32 - pi / 16"
      unfolding wedge_angles by auto
    then have "pi / 16 \<le> pi / 32 - pi / 16" by (rule order_trans)
    then show False using pi_gt_zero by simp
  qed
  show "\<not> (\<exists>d a. 0 < d \<and> startAngle (wedge 0 (pi / 32)) \<le> a \<and> a \<le> endAngle (wedge 0 (pi / 32))
           \<and> generateBlipCoordinates exampleVisual (\<lambda>k. 1 / 4) (wedge 0 (pi / 32)) Accelerate [] 0
               = polarToCartesian \<lparr>distance = d, angle = a\<rparr>)"
  proof
    assume "\<exists>d a. 0 < d \<and> startAngle (wedge 0 (pi / 32)) \<le> a \<and> a \<le> endAngle (wedge 0 (pi / 32))
           \<and> generateBlipCoordinates exampleVisual (\<lambda>k. 1 / 4) (wedge 0 (pi / 32)) Accelerate [] 0
               = polarToCartesian \<lparr>distance = d, angle = a\<rparr>"
    then obtain d a :: real where d: "0 < d" and a: "0 \<le> a" "a \<le> pi / 32"
      and eq: "polarToCartesian \<lparr>distance = 7.03125, angle = 5 * pi / 128\<rparr>
             = polarToCartesian \<lparr>distance = d, angle = a\<rparr>"
      unfolding narrow_coordinates wedge_angles by auto
    have "7.03125 = d \<and> 5 * pi / 128 = a"
      using eq a d pi_gt_zero by (intro polarToCartesian_inject) simp_all
    with a show False using pi_gt_zero by simp
  qed
qed

section \<open>Placement within the sector and the ring\<close>

lemma attemptsOf_bounds:
  "1 \<le> attemptsOf this rnd s r al i \<and> attemptsOf this rnd s r al i \<le> 11"
  unfolding attemptsOf_def blipPlacement_def Let_def
  using placementLoop_attempts [of 0 this rnd _ _ _ _ al i] by (simp add: Suc_le_eq)

lemma affine_range:
  fixes t lo hi :: real
  assumes "0 \<le> t" "t < 1" "lo \<le> hi"
  shows "lo \<le> t * (hi - lo) + lo \<and> t * (hi - lo) + lo \<le> hi"
proof
  from assms have "0 \<le> t * (hi - lo)" by simp
  then show "lo \<le> t * (hi - lo) + lo" by simp
  from assms have "t * (hi - lo) \<le> 1 * (hi - lo)"
    by (intro mult_right_mono) simp_all
  then show "t * (hi - lo) + lo \<le> hi" by simp
qed

lemma fixedRings_radii:
  assumes "rings (radar this) = fixedRings" "r \<in> set fixedRings"
  shows "(inner (calculateRingRadii this r), outer (calculateRingRadii this r))
     \<in> {(0, 12.5), (12.5, 25), (25, 37.5), (37.5, 50)}"
  using assms
  by (auto simp: calculateRingRadii_def Let_def getViewBoxSize_def fixedRings_def
      Accelerate_def Progress_def Monitor_def Pause_def)

text \<open>
  For a sector at least \<open>\<pi>/8\<close> wide (a radar of at most 16 sectors) and one of the four
  rings, the returned coordinates have a polar form with the angle in
  \<open>[startAngle + \<pi>/16, endAngle - \<pi>/16]\<close> and the distance in \<open>[inner 1.1, outer 0.9]\<close>
  (from \<open>outer 0.9 / 2\<close> when the inner radius is 0): strictly inside the sector and the
  ring.
\<close>

lemma generateBlipCoordinates_in_range:
  assumes rnd: "\<forall>k. 0 \<le> rnd k \<and> rnd k < 1"
    and rings: "rings (radar this) = fixedRings" and r: "r \<in> set fixedRings"
    and wide: "startAngle s + pi / 16 \<le> endAngle s - pi / 16"
  shows "\<exists>d a. generateBlipCoordinates this rnd s r al i = polarToCartesian \<lparr>distance = d, angle = a\<rparr>
      \<and> startAngle s + pi / 16 \<le> a \<and> a \<le> endAngle s - pi / 16
      \<and> (if inner (calculateRingRadii this r) = 0 then outer (calculateRingRadii this r) * 0.9 / 2
          else inner (calculateRingRadii this r) * 1.1) \<le> d
      \<and> d \<le> outer (calculateRingRadii this r) * 0.9
      \<and> inner (calculateRingRadii this r) < d \<and> d < outer (calculateRingRadii this r)
      \<and> startAngle s < a \<and> a < endAngle s"
proof -
  define mina where "mina = startAngle s + pi / 16"
  define maxa where "maxa = endAngle s - pi / 16"
  define maxd where "maxd = outer (calculateRingRadii this r) * 0.9"
  define mind where "mind = (if inner (calculateRingRadii this r) * 1.1 = 0 then maxd / 2
    else inner (calculateRingRadii this r) * 1.1)"
  have gen: "generateBlipCoordinates this rnd s r al i =
      fst (placementLoop this rnd mina maxa mind maxd al 0 i)"
    by (simp add: generateBlipCoordinates_def blipPlacement_def Let_def mina_def maxa_def
        mind_def maxd_def)
  from placementLoop_is_candidate [of this rnd mina maxa mind maxd al 0 i]
  obtain k where k: "generateBlipCoordinates this rnd s r al i = candidate rnd mina maxa mind maxd k"
    unfolding gen by blast
  define a where "a = rnd k * (maxa - mina) + mina"
  define d where "d = rnd (k + 1) * (maxd - mind) + mind"
  have polar: "generateBlipCoordinates this rnd s r al i = polarToCartesian \<lparr>distance = d, angle = a\<rparr>"
    by (simp add: k candidate_def a_def d_def)
  have radial: "mind \<le> maxd \<and> inner (calculateRingRadii this r) < mind
      \<and> maxd < outer (calculateRingRadii this r)"
    using fixedRings_radii [OF rings r] by (auto simp: mind_def maxd_def)
  from rnd have t: "0 \<le> rnd k" "rnd k < 1" and u: "0 \<le> rnd (k + 1)" "rnd (k + 1) < 1"
    by simp_all
  from wide have w: "mina \<le> maxa" by (simp add: mina_def maxa_def)
  from radial have v: "mind \<le> maxd" by simp
  have ar: "mina \<le> a \<and> a \<le> maxa"
    unfolding a_def by (rule affine_range [OF t w])
  have dr: "mind \<le> d \<and> d \<le> maxd"
    unfolding d_def by (rule affine_range [OF u v])
  have m: "mind = (if inner (calculateRingRadii this r) = 0 then maxd / 2
      else inner (calculateRingRadii this r) * 1.1)"
    by (simp add: mind_def)
  have "0 < pi / 16" by simp
  with ar have "startAngle s < a" "a < endAngle s"
    unfolding mina_def maxa_def by linarith+
  with polar ar dr radial show ?thesis
    unfolding maxd_def [symmetric] mina_def [symmetric] maxa_def [symmetric]
    unfolding m [symmetric]
    by - (rule exI [of _ d], rule exI [of _ a], simp)
qed

section \<open>The layout of all blips\<close>

lemma placementLoop_result:
  assumes "placementLoop this rnd mina maxa mind maxd al n i = (c, m, j)"
  shows "10 < m \<or> coordinatesAreFree this c al"
  using placementLoop_free_or_exhausted [of this rnd mina maxa mind maxd al n i] assms
  by simp

lemma blipPlacement_free_or_exhausted:
  assumes "blipPlacement this rnd s r al i = (c, n, i')"
  shows "10 < n \<or> coordinatesAreFree this c al"
  using assms unfolding blipPlacement_def Let_def by (rule placementLoop_result)

lemma wellSpaced_step:
  assumes inv: "wellSpaced this st"
    and pl: "blipPlacement this rnd s r (placed st) (nextDraw st) = (c, n, i)"
  shows "wellSpaced this \<lparr>placed = placed st @ [c], attempts = attempts st @ [n], nextDraw = i\<rparr>"
proof -
  from inv have len: "length (attempts st) = length (placed st)"
    and old: "\<And>j k. j < length (placed st) \<Longrightarrow> k < j \<Longrightarrow>
        distanceBetweenPoints (placed st ! j) (placed st ! k) > calculateBlipRadius this * 2.1
        \<or> 10 < attempts st ! j"
    by (auto simp: wellSpaced_def)
  from blipPlacement_free_or_exhausted [OF pl]
  have new: "10 < n \<or> (\<forall>k < length (placed st).
      distanceBetweenPoints c (placed st ! k) > calculateBlipRadius this * 2.1)"
    by (auto simp: coordinatesAreFree_def list_all_length Let_def)
  show ?thesis
    unfolding wellSpaced_def
  proof (intro conjI allI impI)
    show "length (attempts \<lparr>placed = placed st @ [c], attempts = attempts st @ [n], nextDraw = i\<rparr>)
        = length (placed \<lparr>placed = placed st @ [c], attempts = attempts st @ [n], nextDraw = i\<rparr>)"
      using len by simp
  next
    fix j k
    assume j: "j < length (placed \<lparr>placed = placed st @ [c], attempts = attempts st @ [n], nextDraw = i\<rparr>)"
      and k: "k < j"
    show "calculateBlipRadius this * 2.1
          < distanceBetweenPoints
              (placed \<lparr>placed = placed st @ [c], attempts = attempts st @ [n], nextDraw = i\<rparr> ! j)
              (placed \<lparr>placed = placed st @ [c], attempts = attempts st @ [n], nextDraw = i\<rparr> ! k)
        \<or> 10 < attempts \<lparr>placed = placed st @ [c], attempts = attempts st @ [n], nextDraw = i\<rparr> ! j"
    proof (cases "j < length (placed st)")
      case True
      with k old [of j k] len show ?thesis by (simp add: nth_append)
    next
      case False
      with j have "j = length (placed st)" by simp
      with k new len show ?thesis by (auto simp: nth_append)
    qed
  qed
qed

lemma placeBlips_wellSpaced:
  "wellSpaced this st \<Longrightarrow> placeBlips this rnd s bs st = (bs', st') \<Longrightarrow>
     wellSpaced this st'
     \<and> (\<exists>cs. placed st' = placed st @ cs \<and> map blip_coordinates bs' = map Some cs)"
proof (induction bs arbitrary: st bs' st')
  case Nil
  then show ?case by simp
next
  case (Cons b bs)
  obtain c n i where pl: "blipPlacement this rnd s (blip_ring b) (placed st) (nextDraw st) = (c, n, i)"
    by (cases "blipPlacement this rnd s (blip_ring b) (placed st) (nextDraw st)") auto
  obtain bs1 st1 where rec: "placeBlips this rnd s bs
      \<lparr>placed = placed st @ [c], attempts = attempts st @ [n], nextDraw = i\<rparr> = (bs1, st1)"
    by (cases "placeBlips this rnd s bs
      \<lparr>placed = placed st @ [c], attempts = attempts st @ [n], nextDraw = i\<rparr>") auto
  from Cons.prems(2) pl rec have res: "bs' = b\<lparr>blip_coordinates := Some c\<rparr> # bs1" "st' = st1"
    by simp_all
  from Cons.IH [OF wellSpaced_step [OF Cons.prems(1) pl] rec]
  obtain cs where "wellSpaced this st1" "placed st1 = (placed st @ [c]) @ cs"
    "map blip_coordinates bs1 = map Some cs" by auto
  with res show ?case by (auto intro: exI [of _ "c # cs"])
qed

lemma placeSectors_wellSpaced:
  "wellSpaced this st \<Longrightarrow> placeSectors this rnd ss st = (ss', st') \<Longrightarrow>
     wellSpaced this st'
     \<and> (\<exists>cs. placed st' = placed st @ cs
           \<and> map blip_coordinates (concat (map blips ss')) = map Some cs)"
proof (induction ss arbitrary: st ss' st')
  case Nil
  then show ?case by simp
next
  case (Cons s ss)
  obtain bs st1 where pb: "placeBlips this rnd s (blips s) st = (bs, st1)"
    by (cases "placeBlips this rnd s (blips s) st") auto
  obtain ss1 st2 where rec: "placeSectors this rnd ss st1 = (ss1, st2)"
    by (cases "placeSectors this rnd ss st1") auto
  from Cons.prems(2) pb rec have res: "ss' = s\<lparr>blips := bs\<rparr> # ss1" "st' = st2"
    by simp_all
  from placeBlips_wellSpaced [OF Cons.prems(1) pb]
  obtain cs where 1: "wellSpaced this st1" "placed st1 = placed st @ cs"
    "map blip_coordinates bs = map Some cs" by auto
  from Cons.IH [OF 1(1) rec]
  obtain cs' where 2: "wellSpaced this st2" "placed st2 = placed st1 @ cs'"
    "map blip_coordinates (concat (map blips ss1)) = map Some cs'" by auto
  from res 1 2 show ?case by (auto intro: exI [of _ "cs @ cs'"])
qed

lemma setBlipCoordinates_wellSpaced:
  assumes "setBlipCoordinates this rnd = (this', st)"
  shows "wellSpaced this st
    \<and> map blip_coordinates (radar_blips (radar this')) = map Some (placed st)"
proof -
  obtain ss st1 where ps: "placeSectors this rnd (sectors (radar this))
      \<lparr>placed = [], attempts = [], nextDraw = 0\<rparr> = (ss, st1)"
    by (cases "placeSectors this rnd (sectors (radar this))
      \<lparr>placed = [], attempts = [], nextDraw = 0\<rparr>") auto
  with assms have res: "this' = this\<lparr>radar := (radar this)\<lparr>sectors := ss\<rparr>\<rparr>" "st = st1"
    by (simp_all add: setBlipCoordinates_def)
  have "wellSpaced this \<lparr>placed = [], attempts = [], nextDraw = 0\<rparr>"
    by (simp add: wellSpaced_def)
  from placeSectors_wellSpaced [OF this ps] res show ?thesis
    by (auto simp: radar_blips_def)
qed

text \<open>
  C8. After \<open>setBlipCoordinates\<close>, any two distinct blips of the radar have coordinates
  more than \<open>2.1\<close> blip radii apart, unless the placement of one of them ended with
  \<open>attemptCount > 10\<close>, that is, left the loop through the \<open>break\<close> that accepts the
  candidate without the overlap check.
\<close>

theorem setBlipCoordinates_spacing:
  assumes run: "setBlipCoordinates this rnd = (this', st)"
    and i: "i < length (radar_blips (radar this'))"
    and j: "j < length (radar_blips (radar this'))"
    and ij: "i \<noteq> j"
  shows "length (attempts st) = length (radar_blips (radar this'))
       \<and> (\<exists>ci cj. blip_coordinates (radar_blips (radar this') ! i) = Some ci
           \<and> blip_coordinates (radar_blips (radar this') ! j) = Some cj
           \<and> (distanceBetweenPoints ci cj > 2.1 * calculateBlipRadius this
                \<or> 10 < attempts st ! i \<or> 10 < attempts st ! j))"
proof -
  from setBlipCoordinates_wellSpaced [OF run]
  have inv: "wellSpaced this st"
    and co: "map blip_coordinates (radar_blips (radar this')) = map Some (placed st)"
    by simp_all
  from co have len: "length (radar_blips (radar this')) = length (placed st)"
    by (metis length_map)
  from co i len have ci: "blip_coordinates (radar_blips (radar this') ! i) = Some (placed st ! i)"
    by (metis nth_map)
  from co j len have cj: "blip_coordinates (radar_blips (radar this') ! j) = Some (placed st ! j)"
    by (metis nth_map)
  have "distanceBetweenPoints (placed st ! i) (placed st ! j) > 2.1 * calculateBlipRadius this
      \<or> 10 < attempts st ! i \<or> 10 < attempts st ! j"
  proof (cases "i < j")
    case True
    with inv j len have "distanceBetweenPoints (placed st ! j) (placed st ! i)
        > calculateBlipRadius this * 2.1 \<or> 10 < attempts st ! j"
      by (simp add: wellSpaced_def)
    then show ?thesis
      by (auto simp: distanceBetweenPoints_commute [of "placed st ! i"] mult.commute)
  next
    case False
    with ij have "j < i" by simp
    with inv i len have "distanceBetweenPoints (placed st ! i) (placed st ! j)
        > calculateBlipRadius this * 2.1 \<or> 10 < attempts st ! i"
      by (simp add: wellSpaced_def)
    then show ?thesis by (auto simp: mult.commute)
  qed
  moreover from inv len have "length (attempts st) = length (radar_blips (radar this'))"
    by (simp add: wellSpaced_def)
  ultimately show ?thesis using ci cj by blast
qed

lemma twoBlips_first:
  "blipPlacement twoBlips (\<lambda>k. 1 / 2) ((wedge 0 pi)\<lparr>blips := bs\<rparr>) Accelerate [] 0 =
     (polarToCartesian \<lparr>distance = 8.4375, angle = pi / 2\<rparr>, Suc 0, Suc (Suc 0))"
proof -
  have "blipPlacement twoBlips (\<lambda>k. 1 / 2) ((wedge 0 pi)\<lparr>blips := bs\<rparr>) Accelerate [] 0 =
      placementLoop twoBlips (\<lambda>k. 1 / 2) (pi / 16) (pi - pi / 16) 5.625 11.25 [] 0 0"
    by (simp add: blipPlacement_def Let_def calculateRingRadii_def getViewBoxSize_def
      twoBlips_def exampleVisual_def newRadar_def fixedRings_def wedge_def Accelerate_def)
  also have "\<dots> = (candidate (\<lambda>k. 1 / 2) (pi / 16) (pi - pi / 16) 5.625 11.25 0, Suc 0, Suc (Suc 0))"
    by (rule placementLoop_accept) (simp_all add: coordinatesAreFree_Nil)
  also have "candidate (\<lambda>k. 1 / 2) (pi / 16) (pi - pi / 16) 5.625 11.25 0
      = polarToCartesian \<lparr>distance = 8.4375, angle = pi / 2\<rparr>"
    by (simp add: candidate_def)
  finally show ?thesis .
qed

lemma twoBlips_second:
  "blipPlacement twoBlips (\<lambda>k. 1 / 2) ((wedge 0 pi)\<lparr>blips := bs\<rparr>) Pause
     [polarToCartesian \<lparr>distance = 135 / 16, angle = pi / 2\<rparr>] (Suc (Suc 0)) =
     (polarToCartesian \<lparr>distance = 43.125, angle = pi / 2\<rparr>, Suc 0, 4)"
proof -
  have c: "candidate (\<lambda>k. 1 / 2) (pi / 16) (pi - pi / 16) 41.25 45 (Suc (Suc 0))
      = polarToCartesian \<lparr>distance = 43.125, angle = pi / 2\<rparr>"
    by (simp add: candidate_def)
  have f: "coordinatesAreFree twoBlips
      (candidate (\<lambda>k. 1 / 2) (pi / 16) (pi - pi / 16) 41.25 45 (Suc (Suc 0)))
      [polarToCartesian \<lparr>distance = 135 / 16, angle = pi / 2\<rparr>]"
    unfolding c
    by (simp add: coordinatesAreFree_def calculateBlipRadius_def distanceBetweenPoints_same_angle)
  have "blipPlacement twoBlips (\<lambda>k. 1 / 2) ((wedge 0 pi)\<lparr>blips := bs\<rparr>) Pause
      [polarToCartesian \<lparr>distance = 135 / 16, angle = pi / 2\<rparr>] (Suc (Suc 0)) =
      placementLoop twoBlips (\<lambda>k. 1 / 2) (pi / 16) (pi - pi / 16) 41.25 45
        [polarToCartesian \<lparr>distance = 135 / 16, angle = pi / 2\<rparr>] 0 (Suc (Suc 0))"
    by (simp add: blipPlacement_def Let_def calculateRingRadii_def getViewBoxSize_def
      twoBlips_def exampleVisual_def newRadar_def fixedRings_def wedge_def Pause_def)
  also have "\<dots> = (candidate (\<lambda>k. 1 / 2) (pi / 16) (pi - pi / 16) 41.25 45 (Suc (Suc 0)),
      Suc 0, Suc (Suc (Suc (Suc 0))))"
    by (rule placementLoop_accept) (simp, rule f)
  finally show ?thesis unfolding c by simp
qed

lemma twoBlips_layout:
  "snd (setBlipCoordinates twoBlips (\<lambda>k. 1 / 2)) =
     \<lparr>placed = [polarToCartesian \<lparr>distance = 8.4375, angle = pi / 2\<rparr>,
                polarToCartesian \<lparr>distance = 43.125, angle = pi / 2\<rparr>],
      attempts = [1, 1], nextDraw = 4\<rparr>"
  "radar_blips (radar (fst (setBlipCoordinates twoBlips (\<lambda>k. 1 / 2)))) =
     [(exampleBlip ''A'' Accelerate)
        \<lparr>blip_coordinates := Some (polarToCartesian \<lparr>distance = 8.4375, angle = pi / 2\<rparr>)\<rparr>,
      (exampleBlip ''B'' Pause)
        \<lparr>blip_coordinates := Some (polarToCartesian \<lparr>distance = 43.125, angle = pi / 2\<rparr>)\<rparr>]"
proof -
  have s: "sectors (radar twoBlips) =
      [(wedge 0 pi)\<lparr>blips := [exampleBlip ''A'' Accelerate, exampleBlip ''B'' Pause]\<rparr>]"
    by (simp add: twoBlips_def)
  have r: "blip_ring (exampleBlip n r) = r" for n r
    by (simp add: exampleBlip_def)
  show "snd (setBlipCoordinates twoBlips (\<lambda>k. 1 / 2)) =
     \<lparr>placed = [polarToCartesian \<lparr>distance = 8.4375, angle = pi / 2\<rparr>,
                polarToCartesian \<lparr>distance = 43.125, angle = pi / 2\<rparr>],
      attempts = [1, 1], nextDraw = 4\<rparr>"
    by (simp add: setBlipCoordinates_def s r twoBlips_first twoBlips_second)
  show "radar_blips (radar (fst (setBlipCoordinates twoBlips (\<lambda>k. 1 / 2)))) =
     [(exampleBlip ''A'' Accelerate)
        \<lparr>blip_coordinates := Some (polarToCartesian \<lparr>distance = 8.4375, angle = pi / 2\<rparr>)\<rparr>,
      (exampleBlip ''B'' Pause)
        \<lparr>blip_coordinates := Some (polarToCartesian \<lparr>distance = 43.125, angle = pi / 2\<rparr>)\<rparr>]"
    by (simp add: setBlipCoordinates_def radar_blips_def s r twoBlips_first twoBlips_second)
qed

text \<open>
  The theorem at the radar \<open>twoBlips\<close> with \<open>Math.random\<close> returning \<open>1/2\<close>: both
  blips are accepted at their first candidate, \<open>(8.4375, 0)\<close> and \<open>(43.125, 0)\<close>.
\<close>

theorem setBlipCoordinates_spacing_witness:
  "length (attempts (snd (setBlipCoordinates twoBlips (\<lambda>k. 1 / 2)))) = 2
   \<and> (\<exists>ci cj. blip_coordinates (radar_blips (radar (fst (setBlipCoordinates twoBlips (\<lambda>k. 1 / 2)))) ! 0)
             = Some ci
         \<and> blip_coordinates (radar_blips (radar (fst (setBlipCoordinates twoBlips (\<lambda>k. 1 / 2)))) ! 1)
             = Some cj
         \<and> (distanceBetweenPoints ci cj > 2.1 * calculateBlipRadius twoBlips
              \<or> 10 < attempts (snd (setBlipCoordinates twoBlips (\<lambda>k. 1 / 2))) ! 0
              \<or> 10 < attempts (snd (setBlipCoordinates twoBlips (\<lambda>k. 1 / 2))) ! 1))"
proof -
  have run: "setBlipCoordinates twoBlips (\<lambda>k. 1 / 2) =
      (fst (setBlipCoordinates twoBlips (\<lambda>k. 1 / 2)), snd (setBlipCoordinates twoBlips (\<lambda>k. 1 / 2)))"
    by (rule prod.collapse [symmetric])
  have two: "length (radar_blips (radar (fst (setBlipCoordinates twoBlips (\<lambda>k. 1 / 2))))) = 2"
    by (simp add: twoBlips_layout)
  from setBlipCoordinates_spacing [OF run, of 0 1] two show ?thesis
    by simp
qed

section \<open>The data transform: errors\<close>

lemma error_TypeError: "(e :: error) = TypeError"
  by (cases e) simp

lemma criteria_throws:
  "v \<in> set vs \<Longrightarrow> iteratee v = Inl e \<Longrightarrow> criteria iteratee vs = Inl TypeError"
proof (induction vs)
  case Nil
  then show ?case by simp
next
  case (Cons w ws)
  show ?case
  proof (cases "iteratee w")
    case (Inl e')
    then show ?thesis by (simp add: error_TypeError [of e'])
  next
    case (Inr k)
    with Cons have "criteria iteratee ws = Inl TypeError" by auto
    with Inr show ?thesis by simp
  qed
qed

lemma sortBy_throws:
  "v \<in> set vs \<Longrightarrow> iteratee v = Inl e \<Longrightarrow> sortBy vs iteratee = Inl TypeError"
  by (simp add: sortBy_def criteria_throws)

lemma transformData_sort_throws:
  assumes "sortBy (rows dv) (ringOrderOf (indexOf (columnMap (columns dv)) (Some ''ring'')))
             = Inl TypeError"
  shows "transformData cls dv = Inl TypeError"
  using assms by (simp add: transformData_def Let_def)

lemma ringMap_Absent:
  assumes "k \<notin> {''Accelerate'', ''Progress'', ''Monitor'', ''Pause''}"
    and "k \<notin> set objectPrototypeKeys"
  shows "getProperty ringMap k = Absent"
  using assms by (simp add: getProperty_def ringMap_def)

text \<open>
  C1, as the code has it. When some row's ring field, as a property key, is neither one
  of the four ring names nor the name of a member of \<open>Object.prototype\<close>, the iteratee of
  the sort throws a TypeError for that row and \<open>transformData\<close> ends with it: no Radar
  is produced, whatever the other rows are.
\<close>

theorem transformData_unknown_ring_throws:
  assumes "v \<in> set (rows dv)"
    and "ringName = toPropertyKey (cell v (indexOf (columnMap (columns dv)) (Some ''ring'')))"
    and "ringName \<notin> {''Accelerate'', ''Progress'', ''Monitor'', ''Pause''}"
    and "ringName \<notin> set objectPrototypeKeys"
  shows "transformData cls dv = Inl TypeError"
proof (rule transformData_sort_throws, rule sortBy_throws [OF assms(1)])
  show "ringOrderOf (indexOf (columnMap (columns dv)) (Some ''ring'')) v = Inl TypeError"
    using ringMap_Absent [OF assms(3,4)] assms(2) by (simp add: ringOrderOf_def)
qed

lemmas transform_eval = transformData_def columnMap_def indexOf_def cell_def sortBy_def
  ringOrderOf_def getProperty_def ringMap_def objectPrototypeKeys_def addRow_def
  createSector_def newSector_def newBlip_def addBlip_def addSector_def setSectorAngles_def
  forIn_def isArrayIndex_def arrayIndex_def indexValue_def isDigit_def newRadar_def Let_def
  roleColumns_def plainClasses_def tableRow_def Accelerate_def Progress_def Monitor_def
  Pause_def

text \<open>
  C1 as the specification states it, at three rows, the second with the ring \<open>Hold\<close>:
  the specification expects a Radar with the blips A and C; the transform throws.
\<close>

theorem transformData_unknown_ring_counterexample:
  "transformData plainClasses
     \<lparr>columns = roleColumns,
      rows = [tableRow ''A'' ''X'' ''Accelerate'', tableRow ''B'' ''X'' ''Hold'',
              tableRow ''C'' ''Y'' ''Progress''],
      objects = NoObjects\<rparr> = Inl TypeError"
  by (simp add: transform_eval)

text \<open>The theorem at two rows, the second with the ring \<open>Adopt\<close>.\<close>

theorem transformData_unknown_ring_throws_witness:
  "transformData plainClasses
     \<lparr>columns = roleColumns,
      rows = [tableRow ''A'' ''X'' ''Accelerate'', tableRow ''D'' ''Y'' ''Adopt''],
      objects = NoObjects\<rparr> = Inl TypeError"
  by (rule transformData_unknown_ring_throws [of "tableRow ''D'' ''Y'' ''Adopt''" _ "''Adopt''"])
    (simp_all add: roleColumns_def columnMap_def indexOf_def tableRow_def cell_def
      objectPrototypeKeys_def)

section \<open>The data transform: missing columns and the empty table\<close>

lemma indexOfFrom_absent: "v \<notin> set ws \<Longrightarrow> indexOfFrom ws v k = - 1"
  by (induction ws arbitrary: k) auto

lemma indexOf_absent: "v \<notin> set ws \<Longrightarrow> indexOf ws v = - 1"
  by (simp add: indexOf_def indexOfFrom_absent)

lemma cell_absent: "cell v (- 1) = JUndefined"
  by (simp add: cell_def)

lemma transformData_no_rows:
  "rows dv = [] \<Longrightarrow> transformData cls dv = Inr newRadar"
  by (simp add: transformData_def Let_def sortBy_def forIn_def setSectorAngles_def newRadar_def)

text \<open>
  C6, as the code has it. \<open>transformData\<close> does not check the schema and knows no
  SchemaError: the index of a role without a column is \<open>-1\<close>, and the field reads as
  \<open>undefined\<close>. With no rows the result is the empty Radar, whatever the columns are.
  When no column has the role \<open>ring\<close> and there is a row, the sort throws a TypeError.
\<close>

theorem transformData_missing_columns:
  "(rows dv = [] \<longrightarrow> transformData cls dv = Inr newRadar)
   \<and> (Some ''ring'' \<notin> set (columnMap (columns dv)) \<and> rows dv \<noteq> [] \<longrightarrow>
        indexOf (columnMap (columns dv)) (Some ''ring'') = - 1
        \<and> transformData cls dv = Inl TypeError)"
proof (intro conjI impI)
  assume "rows dv = []"
  then show "transformData cls dv = Inr newRadar" by (rule transformData_no_rows)
next
  assume a: "Some ''ring'' \<notin> set (columnMap (columns dv)) \<and> rows dv \<noteq> []"
  then show i: "indexOf (columnMap (columns dv)) (Some ''ring'') = - 1"
    by (simp add: indexOf_absent)
  from a obtain v vs where v: "rows dv = v # vs" by (cases "rows dv") auto
  have "ringOrderOf (- 1) v = Inl TypeError"
    by (simp add: ringOrderOf_def cell_absent getProperty_def ringMap_def objectPrototypeKeys_def)
  then have "sortBy (rows dv) (ringOrderOf (- 1)) = Inl TypeError"
    by (intro sortBy_throws [of v]) (simp_all add: v)
  then show "transformData cls dv = Inl TypeError"
    by (intro transformData_sort_throws) (simp add: i)
qed

text \<open>
  C6 as the specification states it, at a table with the single column \<open>name\<close> and no
  rows, and at a table without the column \<open>description\<close> and with one row: the
  specification expects an error; the transform returns the empty Radar, and a Radar
  whose blip has no description.
\<close>

theorem transformData_missing_column_counterexample:
  "transformData plainClasses \<lparr>columns = [\<lparr>roles = [''name'']\<rparr>], rows = [], objects = NoObjects\<rparr>
     = Inr newRadar
   \<and> transformData plainClasses
     \<lparr>columns = [\<lparr>roles = [''name'']\<rparr>, \<lparr>roles = [''sector'']\<rparr>, \<lparr>roles = [''ring'']\<rparr>,
                 \<lparr>roles = [''isNew'']\<rparr>],
      rows = [[JStr ''A'', JStr ''X'', JStr ''Accelerate'', JBool False]],
      objects = NoObjects\<rparr> =
   Inr \<lparr>sectors =
          [\<lparr>sector_id = ''X'', sector_name = JStr ''X'', sector_colour = ''#808080'',
            startAngle = 0, endAngle = 2 * pi,
            blips = [\<lparr>blip_id = ''A'', blip_name = JStr ''A'', blip_ring = Own Accelerate,
                      blip_sector = ''X'', blip_isNew = JBool False,
                      blip_description = JUndefined, blip_coordinates = None\<rparr>]\<rparr>],
        rings = fixedRings\<rparr>"
  by (simp add: transformData_no_rows) (simp add: transform_eval)

text \<open>
  The theorem at a table with no column and no row, and at a table with the columns
  \<open>name\<close> and \<open>sector\<close> and one row.
\<close>

theorem transformData_missing_columns_witness:
  "transformData plainClasses \<lparr>columns = [], rows = [], objects = NoObjects\<rparr> = Inr newRadar
   \<and> transformData plainClasses
        \<lparr>columns = [\<lparr>roles = [''name'']\<rparr>, \<lparr>roles = [''sector'']\<rparr>],
         rows = [[JStr ''A'', JStr ''X'']], objects = NoObjects\<rparr> = Inl TypeError"
  using transformData_missing_columns [of "\<lparr>columns = [], rows = [], objects = NoObjects\<rparr>" plainClasses]
    transformData_missing_columns
      [of "\<lparr>columns = [\<lparr>roles = [''name'']\<rparr>, \<lparr>roles = [''sector'']\<rparr>],
            rows = [[JStr ''A'', JStr ''X'']], objects = NoObjects\<rparr>" plainClasses]
  by (simp add: columnMap_def)

text \<open>
  C9. For the empty row set, whatever the columns and the stored colours,
  \<open>transformData\<close> throws nothing and returns the Radar with no sector and no blip.
  Rendering it gives an empty sector layer, an empty left sidebar (no entry for a sector
  or a blip; what is left is the container of the blip description, which every left
  sidebar ends with and which has no content), and a right sidebar that lists the four
  rings in ring order.
\<close>

theorem transformData_empty_rows:
  fixes this :: "ring property visual"
  shows "transformData cls \<lparr>columns = cols, rows = [], objects = objs\<rparr> = Inr newRadar
   \<and> sectors (newRadar :: ring property radar) = []
   \<and> radar_blips (newRadar :: ring property radar) = []
   \<and> plotSectors (this\<lparr>radar := newRadar\<rparr>) = []
   \<and> plotLeftSidebar (this\<lparr>radar := newRadar\<rparr>) =
       [Element ''div'' [(''id'', Text ''blip-description'')] [] [] []]
   \<and> plotRightSidebar (this\<lparr>radar := newRadar\<rparr>) =
       [Element ''ul'' [] [] []
          [Element ''li'' [] [(''color'', ''#C7C7C7'')] [] [Element ''span'' [] [] ''Accelerate'' []],
           Element ''li'' [] [(''color'', ''#A3A3A3'')] [] [Element ''span'' [] [] ''Progress'' []],
           Element ''li'' [] [(''color'', ''#7A7A7A'')] [] [Element ''span'' [] [] ''Monitor'' []],
           Element ''li'' [] [(''color'', ''#525252'')] [] [Element ''span'' [] [] ''Pause'' []]]]"
  by (simp add: transformData_no_rows newRadar_def radar_blips_def plotSectors_def
      plotLeftSidebar_def plotRightSidebar_def fixedRings_def Accelerate_def Progress_def
      Monitor_def Pause_def)

section \<open>Sector angles\<close>

lemma setSectorAngles_length: "length (sectors (setSectorAngles r)) = length (sectors r)"
  by (simp add: setSectorAngles_def Let_def)

lemma setSectorAngles_nth:
  assumes "i < length (sectors r)"
  shows "sectors (setSectorAngles r) ! i =
     (sectors r ! i)\<lparr>startAngle := real i * 2 * pi / real (length (sectors r)),
                     endAngle := (real i + 1) * 2 * pi / real (length (sectors r))\<rparr>"
  using assms by (simp add: setSectorAngles_def Let_def nth_enumerate_eq)

lemma setSectorAngles_arc:
  assumes "i < length (sectors r)"
  shows "arc (sectors (setSectorAngles r) ! i) =
     {real i * 2 * pi / real (length (sectors r)) ..<
      (real i + 1) * 2 * pi / real (length (sectors r))}"
  using assms by (simp add: arc_def setSectorAngles_nth)

lemma arcs_ordered:
  fixes N :: nat
  assumes "i < j" "0 < N"
  shows "(real i + 1) * 2 * pi / real N \<le> real j * 2 * pi / real N"
proof -
  from assms(1) have "real i + 1 \<le> real j" by simp
  then have "(real i + 1) * (2 * pi) \<le> real j * (2 * pi)"
    by (rule mult_right_mono) simp
  with assms(2) show ?thesis by (simp add: divide_right_mono mult.assoc)
qed

lemma arcs_disjoint:
  fixes N :: nat
  assumes "i \<noteq> j" "0 < N"
  shows "{real i * 2 * pi / real N ..< (real i + 1) * 2 * pi / real N}
       \<inter> {real j * 2 * pi / real N ..< (real j + 1) * 2 * pi / real N} = {}"
proof (cases "i < j")
  case True
  from arcs_ordered [OF True assms(2)] show ?thesis by auto
next
  case False
  with assms(1) have "j < i" by simp
  from arcs_ordered [OF this assms(2)] show ?thesis by auto
qed

lemma arcs_cover:
  fixes N :: nat
  assumes "0 < N"
  shows "(\<Union>i<N. {real i * 2 * pi / real N ..< (real i + 1) * 2 * pi / real N}) = {0 ..< 2 * pi}"
proof (intro equalityI subsetI)
  fix a
  assume "a \<in> (\<Union>i<N. {real i * 2 * pi / real N ..< (real i + 1) * 2 * pi / real N})"
  then obtain i where i: "i < N" and lo: "real i * 2 * pi / real N \<le> a"
    and hi: "a < (real i + 1) * 2 * pi / real N" by auto
  have "0 \<le> real i * 2 * pi / real N" by simp
  with lo have "0 \<le> a" by linarith
  moreover have "(real i + 1) * 2 * pi / real N \<le> 2 * pi"
  proof -
    from i have "real i + 1 \<le> real N" by simp
    then have "(real i + 1) * (2 * pi) \<le> real N * (2 * pi)"
      by (rule mult_right_mono) simp
    with assms show ?thesis by (simp add: field_simps)
  qed
  ultimately show "a \<in> {0 ..< 2 * pi}" using hi by simp
next
  fix a :: real
  assume "a \<in> {0 ..< 2 * pi}"
  then have a: "0 \<le> a" "a < 2 * pi" by simp_all
  define q where "q = a * real N / (2 * pi)"
  define i where "i = nat \<lfloor>q\<rfloor>"
  have q0: "0 \<le> q" using a assms by (simp add: q_def)
  have qN: "q < real N"
  proof -
    from a(2) assms have "a * real N < 2 * pi * real N" by simp
    then show ?thesis by (simp add: q_def field_simps)
  qed
  have ri: "real i = of_int \<lfloor>q\<rfloor>" using q0 by (simp add: i_def)
  have lo: "real i \<le> q" unfolding ri by (rule of_int_floor_le)
  have hi: "q < real i + 1" unfolding ri by linarith
  from lo qN have "real i < real N" by simp
  then have iN: "i < N" by simp
  have aq: "a = q * (2 * pi) / real N" using assms by (simp add: q_def)
  have "real i * 2 * pi / real N \<le> a"
  proof -
    from lo have "real i * (2 * pi) \<le> q * (2 * pi)" by (rule mult_right_mono) simp
    then show ?thesis unfolding aq using assms by (simp add: divide_right_mono mult.assoc)
  qed
  moreover have "a < (real i + 1) * 2 * pi / real N"
  proof -
    from hi have "q * (2 * pi) < (real i + 1) * (2 * pi)" by (rule mult_strict_right_mono) simp
    then show ?thesis unfolding aq using assms by (simp add: divide_strict_right_mono mult.assoc)
  qed
  ultimately show "a \<in> (\<Union>i<N. {real i * 2 * pi / real N ..< (real i + 1) * 2 * pi / real N})"
    using iN by auto
qed

text \<open>
  On any radar with \<open>N \<ge> 1\<close> sectors, \<open>setSectorAngles\<close> gives the sector at position \<open>i\<close>
  of the radar's list (counted from 0) the arc from \<open>i 2\<pi> / N\<close> up to \<open>(i + 1) 2\<pi> / N\<close>.
  The arcs are \<open>2\<pi> / N\<close> wide, pairwise disjoint, and their union is the arc from 0 up
  to \<open>2\<pi>\<close>.
\<close>

lemma setSectorAngles_arcs:
  assumes N: "N = length (sectors r)" and pos: "0 < N"
  shows "length (sectors (setSectorAngles r)) = N
   \<and> (\<forall>i<N. startAngle (sectors (setSectorAngles r) ! i) = real i * 2 * pi / real N
          \<and> endAngle (sectors (setSectorAngles r) ! i) = (real i + 1) * 2 * pi / real N
          \<and> endAngle (sectors (setSectorAngles r) ! i)
              - startAngle (sectors (setSectorAngles r) ! i) = 2 * pi / real N)
   \<and> (\<forall>i<N. \<forall>j<N. i \<noteq> j \<longrightarrow>
          arc (sectors (setSectorAngles r) ! i) \<inter> arc (sectors (setSectorAngles r) ! j) = {})
   \<and> (\<Union>i<N. arc (sectors (setSectorAngles r) ! i)) = {0 ..< 2 * pi}"
proof (intro conjI allI impI)
  show "length (sectors (setSectorAngles r)) = N"
    by (simp add: N setSectorAngles_length)
next
  fix i assume "i < N"
  then show "startAngle (sectors (setSectorAngles r) ! i) = real i * 2 * pi / real N"
    and "endAngle (sectors (setSectorAngles r) ! i) = (real i + 1) * 2 * pi / real N"
    by (simp_all add: N setSectorAngles_nth)
next
  fix i assume "i < N"
  then have "endAngle (sectors (setSectorAngles r) ! i)
        - startAngle (sectors (setSectorAngles r) ! i)
      = (real i + 1) * 2 * pi / real N - real i * 2 * pi / real N"
    by (simp add: N setSectorAngles_nth)
  also have "\<dots> = 2 * pi / real N"
    by (simp add: diff_divide_distrib [symmetric] algebra_simps)
  finally show "endAngle (sectors (setSectorAngles r) ! i)
        - startAngle (sectors (setSectorAngles r) ! i) = 2 * pi / real N" .
next
  fix i j assume "i < N" "j < N" "i \<noteq> j"
  then show "arc (sectors (setSectorAngles r) ! i) \<inter> arc (sectors (setSectorAngles r) ! j) = {}"
    using arcs_disjoint [of i j N] pos by (simp add: N setSectorAngles_arc)
next
  have "(\<Union>i<N. arc (sectors (setSectorAngles r) ! i))
      = (\<Union>i<N. {real i * 2 * pi / real N ..< (real i + 1) * 2 * pi / real N})"
    by (simp add: N setSectorAngles_arc)
  then show "(\<Union>i<N. arc (sectors (setSectorAngles r) ! i)) = {0 ..< 2 * pi}"
    by (simp only: arcs_cover [OF pos])
qed

section \<open>Objects as dictionaries\<close>

lemma map_of_setProperty: "map_of (setProperty obj k v) = (map_of obj)(k \<mapsto> v)"
  by (induction obj k v rule: setProperty.induct) (auto simp: fun_eq_iff)

lemma keys_setProperty:
  "map fst (setProperty obj k v) =
     (if k \<in> set (map fst obj) then map fst obj else map fst obj @ [k])"
  by (induction obj k v rule: setProperty.induct) auto

lemma getProperty_Own: "getProperty obj k = Own s \<longleftrightarrow> map_of obj k = Some s"
  by (auto simp: getProperty_def split: option.splits)

lemma getProperty_Absent: "getProperty obj k = Absent \<Longrightarrow> k \<notin> set (map fst obj)"
  by (auto simp: getProperty_def map_of_eq_None_iff split: option.splits if_splits)

lemma getProperty_Inherited: "getProperty obj k = Inherited \<Longrightarrow> map_of obj k = None"
  by (auto simp: getProperty_def split: option.splits if_splits)

lemma firstSeen_snoc:
  "firstSeen (ks @ [k]) = (if k \<in> set ks then firstSeen ks else firstSeen ks @ [k])"
  by (simp add: firstSeen_def)

lemma set_firstSeen: "set (firstSeen ks) = set ks"
  by (simp add: firstSeen_def)

lemma distinct_firstSeen: "distinct (firstSeen ks)"
  by (simp add: firstSeen_def)

lemma firstSeen_Nil: "firstSeen [] = []"
  by (simp add: firstSeen_def)

section \<open>The loop over the sorted rows\<close>

lemma createSector_Inr:
  assumes "createSector cls objs st sectorName = Inr st1"
  shows "\<exists>c. sectorsObject st1 =
      setProperty (sectorsObject st) (toPropertyKey sectorName)
        ((newSector cls sectorName)\<lparr>sector_colour := c\<rparr>)"
  using assms
  by (auto simp: createSector_def Let_def
      split: metadataObjects.splits option.splits property.splits)

lemma addRow_step:
  assumes inv: "sectorsInvariant cls cols st vs"
    and run: "addRow cls objs (indexOf (columnMap cols) (Some ''name''))
               (indexOf (columnMap cols) (Some ''description''))
               (indexOf (columnMap cols) (Some ''sector''))
               (indexOf (columnMap cols) (Some ''ring''))
               (indexOf (columnMap cols) (Some ''isNew'')) st v = Inr st'"
  shows "sectorsInvariant cls cols st' (vs @ [v])"
proof -
  define k where "k = sectorKeyOf cols v"
  define sectorName where "sectorName = cell v (indexOf (columnMap cols) (Some ''sector''))"
  have k: "k = toPropertyKey sectorName" by (simp add: k_def sectorName_def sectorKeyOf_def)
  from inv have keys: "map fst (sectorsObject st) = firstSeen (map (sectorKeyOf cols) vs)"
    and old: "\<And>k' s. map_of (sectorsObject st) k' = Some s \<Longrightarrow>
        toPropertyKey (sector_name s) = k'
        \<and> blips s = map (blipOf cls cols) (filter (\<lambda>v. sectorKeyOf cols v = k') vs)"
    by (auto simp: sectorsInvariant_def)
  show ?thesis
  proof (cases "getProperty (sectorsObject st) k")
    case (Own s)
    then have s: "map_of (sectorsObject st) k = Some s" by (simp add: getProperty_Own)
    from run Own have st': "st' = st\<lparr>sectorsObject :=
        setProperty (sectorsObject st) k (addBlip s (blipOf cls cols v))\<rparr>"
      by (auto simp: addRow_def Let_def k sectorName_def blipOf_def sectorKeyOf_def)
    from s have kin: "k \<in> set (map fst (sectorsObject st))"
      by (metis map_of_eq_None_iff option.distinct(1) set_map)
    then have seen: "k \<in> set (map (sectorKeyOf cols) vs)"
      by (simp add: keys set_firstSeen)
    show ?thesis
      unfolding sectorsInvariant_def
    proof (intro conjI allI impI)
      show "map fst (sectorsObject st') = firstSeen (map (sectorKeyOf cols) (vs @ [v]))"
        using kin seen keys by (simp add: st' keys_setProperty firstSeen_snoc k_def)
    next
      fix k' t
      assume "map_of (sectorsObject st') k' = Some t"
      then have t: "((map_of (sectorsObject st))(k \<mapsto> addBlip s (blipOf cls cols v))) k' = Some t"
        by (simp add: st' map_of_setProperty)
      show "toPropertyKey (sector_name t) = k'"
        using t old [of k'] old [OF s] by (auto simp: addBlip_def split: if_splits)
      show "blips t = map (blipOf cls cols) (filter (\<lambda>v. sectorKeyOf cols v = k') (vs @ [v]))"
        using t old [of k'] old [OF s] by (auto simp: addBlip_def k_def split: if_splits)
    qed
  next
    case Inherited
    with run have False
      by (auto simp: addRow_def Let_def k sectorName_def)
    then show ?thesis ..
  next
    case Absent
    then have notin: "k \<notin> set (map fst (sectorsObject st))" by (rule getProperty_Absent)
    then have unseen: "k \<notin> set (map (sectorKeyOf cols) vs)"
      by (simp add: keys set_firstSeen)
    from run Absent obtain st1 where cr: "createSector cls objs st sectorName = Inr st1"
      by (auto simp: addRow_def Let_def k sectorName_def split: sum.splits)
    from createSector_Inr [OF cr] obtain c where obj1: "sectorsObject st1 =
        setProperty (sectorsObject st) k ((newSector cls sectorName)\<lparr>sector_colour := c\<rparr>)"
      by (auto simp: k)
    define s0 :: "ring property sector" where "s0 = (newSector cls sectorName)\<lparr>sector_colour := c\<rparr>"
    have own1: "getProperty (sectorsObject st1) k = Own s0"
      by (simp add: getProperty_Own obj1 map_of_setProperty s0_def)
    from run Absent cr own1 have st': "st' = st1\<lparr>sectorsObject :=
        setProperty (sectorsObject st1) k (addBlip s0 (blipOf cls cols v))\<rparr>"
      by (auto simp: addRow_def Let_def k sectorName_def blipOf_def sectorKeyOf_def)
    have keys1: "map fst (sectorsObject st1) = map fst (sectorsObject st) @ [k]"
      using notin by (simp add: obj1 keys_setProperty)
    show ?thesis
      unfolding sectorsInvariant_def
    proof (intro conjI allI impI)
      show "map fst (sectorsObject st') = firstSeen (map (sectorKeyOf cols) (vs @ [v]))"
        using unseen keys by (simp add: st' keys_setProperty keys1 firstSeen_snoc k_def)
    next
      fix k' t
      assume "map_of (sectorsObject st') k' = Some t"
      then have t: "((map_of (sectorsObject st))(k \<mapsto> addBlip s0 (blipOf cls cols v))) k' = Some t"
        by (simp add: st' obj1 map_of_setProperty)
      have none: "filter (\<lambda>v. sectorKeyOf cols v = k) vs = []"
        using unseen by (auto simp: filter_empty_conv)
      show "toPropertyKey (sector_name t) = k'"
        using t old [of k'] by (auto simp: addBlip_def s0_def newSector_def k split: if_splits)
      show "blips t = map (blipOf cls cols) (filter (\<lambda>v. sectorKeyOf cols v = k') (vs @ [v]))"
        using t old [of k'] none
        by (auto simp: addBlip_def s0_def newSector_def k_def split: if_splits)
    qed
  qed
qed

lemma forEachRow_invariant:
  assumes "sectorsInvariant cls cols st vs"
    and "forEachRow (addRow cls objs (indexOf (columnMap cols) (Some ''name''))
               (indexOf (columnMap cols) (Some ''description''))
               (indexOf (columnMap cols) (Some ''sector''))
               (indexOf (columnMap cols) (Some ''ring''))
               (indexOf (columnMap cols) (Some ''isNew''))) ws st = Inr st'"
  shows "sectorsInvariant cls cols st' (vs @ ws)"
  using assms
proof (induction ws arbitrary: st vs)
  case Nil
  then show ?case by simp
next
  case (Cons w ws)
  from Cons.prems(2) obtain st1 where
    1: "addRow cls objs (indexOf (columnMap cols) (Some ''name''))
               (indexOf (columnMap cols) (Some ''description''))
               (indexOf (columnMap cols) (Some ''sector''))
               (indexOf (columnMap cols) (Some ''ring''))
               (indexOf (columnMap cols) (Some ''isNew'')) st w = Inr st1"
    and 2: "forEachRow (addRow cls objs (indexOf (columnMap cols) (Some ''name''))
               (indexOf (columnMap cols) (Some ''description''))
               (indexOf (columnMap cols) (Some ''sector''))
               (indexOf (columnMap cols) (Some ''ring''))
               (indexOf (columnMap cols) (Some ''isNew''))) ws st1 = Inr st'"
    by (auto split: sum.splits)
  from Cons.IH [OF addRow_step [OF Cons.prems(1) 1] 2] show ?case by simp
qed

lemma sectorsInvariant_initial:
  "sectorsInvariant cls cols \<lparr>sectorsObject = [], coloursGenerated = 0\<rparr> []"
  by (simp add: sectorsInvariant_def firstSeen_Nil)

section \<open>The sorted rows\<close>

lemma ringOrderOf_Inr:
  "ringOrderOf (indexOf (columnMap cols) (Some ''ring'')) v = Inr k \<Longrightarrow> k = ringRank cols v"
  by (auto simp: ringOrderOf_def ringRank_def split: property.splits)

lemma criteria_Inr:
  "criteria (ringOrderOf (indexOf (columnMap cols) (Some ''ring''))) vs = Inr ks \<Longrightarrow>
     ks = map (\<lambda>v. (ringRank cols v, v)) vs"
proof (induction vs arbitrary: ks)
  case Nil
  then show ?case by simp
next
  case (Cons v vs)
  then show ?case
    by (auto split: sum.splits dest: ringOrderOf_Inr)
qed

lemma insort_key_pairs:
  "insort_key fst (g v, v) (map (\<lambda>v. (g v, v)) ws) = map (\<lambda>v. (g v, v)) (insort_key g v ws)"
  by (induction ws) simp_all

lemma sort_key_pairs:
  "sort_key fst (map (\<lambda>v. (g v, v)) vs) = map (\<lambda>v. (g v, v)) (sort_key g vs)"
  by (induction vs) (simp_all add: insort_key_pairs)

lemma sortBy_Inr:
  assumes "sortBy vs (ringOrderOf (indexOf (columnMap cols) (Some ''ring''))) = Inr sortedRows"
  shows "sortedRows = sort_key (ringRank cols) vs"
proof -
  from assms obtain ks where
    ks: "criteria (ringOrderOf (indexOf (columnMap cols) (Some ''ring''))) vs = Inr ks"
    and s: "sortedRows = map snd (sort_key fst ks)"
    by (auto simp: sortBy_def split: sum.splits)
  from criteria_Inr [OF ks] s show ?thesis
    by (simp add: sort_key_pairs comp_def)
qed

section \<open>The order of the sectors\<close>

lemma map_fst_insort_key:
  "map fst (insort_key (\<lambda>kv. g (fst kv)) kv kvs) = insort_key g (fst kv) (map fst kvs)"
  by (induction kvs) simp_all

lemma map_fst_sort_key:
  "map fst (sort_key (\<lambda>kv. g (fst kv)) kvs) = sort_key g (map fst kvs)"
  by (induction kvs) (simp_all add: map_fst_insort_key)

lemma map_fst_forIn: "map fst (forIn obj) = forInKeys (map fst obj)"
  by (simp add: forIn_def forInKeys_def map_fst_sort_key filter_map comp_def)

lemma set_forIn: "set (forIn obj) = set obj"
  by (auto simp: forIn_def)

lemma sectors_foldl_addSector: "sectors (foldl addSector r ss) = sectors r @ ss"
  by (induction ss arbitrary: r) (simp_all add: addSector_def)

lemma setSectorAngles_names:
  "map sector_name (sectors (setSectorAngles r)) = map sector_name (sectors r)"
  by (rule nth_equalityI) (simp_all add: setSectorAngles_length setSectorAngles_nth)

lemma setSectorAngles_member:
  assumes "s \<in> set (sectors (setSectorAngles r))"
  shows "\<exists>s0 \<in> set (sectors r). sector_name s = sector_name s0 \<and> blips s = blips s0"
proof -
  from assms obtain i where i: "i < length (sectors r)" and s: "s = sectors (setSectorAngles r) ! i"
    by (metis in_set_conv_nth setSectorAngles_length)
  then have "sector_name s = sector_name (sectors r ! i)" "blips s = blips (sectors r ! i)"
    by (simp_all add: setSectorAngles_nth)
  with i show ?thesis by (metis nth_mem)
qed

lemma distinct_forInKeys: "distinct ks \<Longrightarrow> distinct (forInKeys ks)"
  by (auto simp: forInKeys_def)

lemma transformData_Inr:
  assumes "transformData cls dv = Inr r"
  shows "\<exists>st. forEachRow
            (addRow cls (objects dv) (indexOf (columnMap (columns dv)) (Some ''name''))
               (indexOf (columnMap (columns dv)) (Some ''description''))
               (indexOf (columnMap (columns dv)) (Some ''sector''))
               (indexOf (columnMap (columns dv)) (Some ''ring''))
               (indexOf (columnMap (columns dv)) (Some ''isNew'')))
            (sort_key (ringRank (columns dv)) (rows dv))
            \<lparr>sectorsObject = [], coloursGenerated = 0\<rparr> = Inr st
         \<and> r = setSectorAngles (foldl addSector newRadar (map snd (forIn (sectorsObject st))))"
  using assms
  by (auto simp: transformData_def Let_def split: sum.splits dest!: sortBy_Inr)

section \<open>Sorting and grouping\<close>

lemma specExample_run: "transformData plainClasses specExample = Inr specExampleRadar"
  by (simp add: specExample_def specExampleRadar_def transform_eval)

text \<open>
  C7, as the code has it. When \<open>transformData\<close> returns a Radar, then, with
  \<open>sortedRows\<close> the rows sorted by the rank of their ring, ascending and stable (a ring
  that is a member of \<open>Object.prototype\<close> ranks last):
  \<^item> the keys of the Radar's sectors are the sector keys of the rows, each once; the keys
    that are array indices come first, in ascending numeric order, then the other keys in
    the order of their first appearance in \<open>sortedRows\<close>;
  \<^item> a sector holds the blips of exactly the rows of \<open>sortedRows\<close> with its key, in the
    order of \<open>sortedRows\<close>.
  In particular the rows A (X, Accelerate), B (X, Pause), C (Y, Progress) give the two
  sectors X, from 0 to \<open>\<pi>\<close>, with the blips A and B, and Y, from \<open>\<pi>\<close> to \<open>2\<pi>\<close>, with the
  blip C.
\<close>

theorem transformData_grouping:
  assumes run: "transformData cls dv = Inr r"
    and sortedRows: "sortedRows = sort_key (ringRank (columns dv)) (rows dv)"
  shows "sorted (map (ringRank (columns dv)) sortedRows)
   \<and> mset sortedRows = mset (rows dv)
   \<and> (\<forall>k. filter (\<lambda>v. ringRank (columns dv) v = k) sortedRows
           = filter (\<lambda>v. ringRank (columns dv) v = k) (rows dv))
   \<and> map (\<lambda>s. toPropertyKey (sector_name s)) (sectors r)
       = forInKeys (firstSeen (map (sectorKeyOf (columns dv)) sortedRows))
   \<and> distinct (map (\<lambda>s. toPropertyKey (sector_name s)) (sectors r))
   \<and> (\<forall>s \<in> set (sectors r).
         blips s = map (blipOf cls (columns dv))
                     (filter (\<lambda>v. sectorKeyOf (columns dv) v = toPropertyKey (sector_name s))
                        sortedRows))
   \<and> transformData plainClasses specExample = Inr specExampleRadar"
proof -
  from transformData_Inr [OF run] obtain st where
    loop: "forEachRow
            (addRow cls (objects dv) (indexOf (columnMap (columns dv)) (Some ''name''))
               (indexOf (columnMap (columns dv)) (Some ''description''))
               (indexOf (columnMap (columns dv)) (Some ''sector''))
               (indexOf (columnMap (columns dv)) (Some ''ring''))
               (indexOf (columnMap (columns dv)) (Some ''isNew'')))
            sortedRows \<lparr>sectorsObject = [], coloursGenerated = 0\<rparr> = Inr st"
    and r: "r = setSectorAngles (foldl addSector newRadar (map snd (forIn (sectorsObject st))))"
    unfolding sortedRows by blast
  from forEachRow_invariant [OF sectorsInvariant_initial loop]
  have inv: "sectorsInvariant cls (columns dv) st sortedRows" by simp
  then have keys: "map fst (sectorsObject st) = firstSeen (map (sectorKeyOf (columns dv)) sortedRows)"
    and entries: "\<And>k s. map_of (sectorsObject st) k = Some s \<Longrightarrow>
        toPropertyKey (sector_name s) = k
        \<and> blips s = map (blipOf cls (columns dv))
                      (filter (\<lambda>v. sectorKeyOf (columns dv) v = k) sortedRows)"
    by (auto simp: sectorsInvariant_def)
  have dist: "distinct (map fst (sectorsObject st))"
    by (simp add: keys distinct_firstSeen)
  have entry: "toPropertyKey (sector_name s) = k
      \<and> blips s = map (blipOf cls (columns dv))
                    (filter (\<lambda>v. sectorKeyOf (columns dv) v = k) sortedRows)"
    if "(k, s) \<in> set (sectorsObject st)" for k s
    using that dist by (intro entries) simp
  have names: "map (\<lambda>kv. toPropertyKey (sector_name (snd kv))) (forIn (sectorsObject st))
      = map fst (forIn (sectorsObject st))"
    by (rule map_cong [OF refl]) (use entry in \<open>auto simp: set_forIn\<close>)
  have secs: "sectors (foldl addSector newRadar (map snd (forIn (sectorsObject st))))
      = map snd (forIn (sectorsObject st))"
    by (simp add: sectors_foldl_addSector newRadar_def)
  have order: "map (\<lambda>s. toPropertyKey (sector_name s)) (sectors r)
      = forInKeys (firstSeen (map (sectorKeyOf (columns dv)) sortedRows))"
  proof -
    have "map (\<lambda>s. toPropertyKey (sector_name s)) (sectors r)
        = map toPropertyKey (map sector_name (sectors r))" by simp
    also have "\<dots> = map toPropertyKey (map sector_name (map snd (forIn (sectorsObject st))))"
      by (simp only: r setSectorAngles_names secs)
    also have "\<dots> = map fst (forIn (sectorsObject st))"
      using names by (simp add: comp_def)
    finally show ?thesis by (simp add: map_fst_forIn keys)
  qed
  have grouped: "blips s = map (blipOf cls (columns dv))
      (filter (\<lambda>v. sectorKeyOf (columns dv) v = toPropertyKey (sector_name s)) sortedRows)"
    if "s \<in> set (sectors r)" for s
  proof -
    from that have "s \<in> set (sectors (setSectorAngles
        (foldl addSector newRadar (map snd (forIn (sectorsObject st))))))"
      by (simp only: r)
    from setSectorAngles_member [OF this] obtain s0 where
      "s0 \<in> set (sectors (foldl addSector newRadar (map snd (forIn (sectorsObject st)))))"
      and eq: "sector_name s = sector_name s0" "blips s = blips s0"
      by blast
    then have s0: "s0 \<in> set (map snd (forIn (sectorsObject st)))"
      by (simp only: secs)
    from s0 obtain k where "(k, s0) \<in> set (sectorsObject st)"
      by (auto simp: set_forIn)
    from entry [OF this] eq show ?thesis by simp
  qed
  show ?thesis
  proof (intro conjI allI ballI)
    show "sorted (map (ringRank (columns dv)) sortedRows)"
      by (simp add: sortedRows)
    show "mset sortedRows = mset (rows dv)"
      by (simp add: sortedRows)
    show "filter (\<lambda>v. ringRank (columns dv) v = k) sortedRows
        = filter (\<lambda>v. ringRank (columns dv) v = k) (rows dv)" for k
      by (simp add: sortedRows sort_key_stable)
    show "map (\<lambda>s. toPropertyKey (sector_name s)) (sectors r)
        = forInKeys (firstSeen (map (sectorKeyOf (columns dv)) sortedRows))"
      by (rule order)
    show "distinct (map (\<lambda>s. toPropertyKey (sector_name s)) (sectors r))"
      by (simp only: order distinct_forInKeys distinct_firstSeen)
    show "blips s = map (blipOf cls (columns dv))
        (filter (\<lambda>v. sectorKeyOf (columns dv) v = toPropertyKey (sector_name s)) sortedRows)"
      if "s \<in> set (sectors r)" for s
      using that by (rule grouped)
    show "transformData plainClasses specExample = Inr specExampleRadar"
      by (rule specExample_run)
  qed
qed

text \<open>
  C7 as the specification states it, at two rows of the ring Accelerate with the
  sectors \<open>2\<close> and \<open>1\<close>: the sector \<open>2\<close> appears first in the sorted rows; the Radar lists
  the sector \<open>1\<close> first.
\<close>

theorem transformData_sector_order_counterexample:
  "transformData plainClasses
     \<lparr>columns = roleColumns,
      rows = [tableRow ''A'' ''2'' ''Accelerate'', tableRow ''B'' ''1'' ''Accelerate''],
      objects = NoObjects\<rparr> =
   Inr \<lparr>sectors =
          [\<lparr>sector_id = ''1'', sector_name = JStr ''1'', sector_colour = ''#808080'',
            startAngle = 0, endAngle = pi,
            blips = [\<lparr>blip_id = ''B'', blip_name = JStr ''B'', blip_ring = Own Accelerate,
                      blip_sector = ''1'', blip_isNew = JBool False,
                      blip_description = JStr [], blip_coordinates = None\<rparr>]\<rparr>,
           \<lparr>sector_id = ''2'', sector_name = JStr ''2'', sector_colour = ''#808080'',
            startAngle = pi, endAngle = 2 * pi,
            blips = [\<lparr>blip_id = ''A'', blip_name = JStr ''A'', blip_ring = Own Accelerate,
                      blip_sector = ''2'', blip_isNew = JBool False,
                      blip_description = JStr [], blip_coordinates = None\<rparr>]\<rparr>],
        rings = fixedRings\<rparr>"
  by (simp add: transform_eval)

text \<open>The theorem at the example of the specification.\<close>

theorem transformData_grouping_witness:
  "map (\<lambda>s. toPropertyKey (sector_name s)) (sectors specExampleRadar) = [''X'', ''Y'']
   \<and> forInKeys (firstSeen (map (sectorKeyOf (columns specExample))
        (sort_key (ringRank (columns specExample)) (rows specExample)))) = [''X'', ''Y'']
   \<and> map blip_name (blips (sectors specExampleRadar ! 0)) = [JStr ''A'', JStr ''B'']"
proof -
  from transformData_grouping [OF specExample_run refl]
  have "map (\<lambda>s. toPropertyKey (sector_name s)) (sectors specExampleRadar)
      = forInKeys (firstSeen (map (sectorKeyOf (columns specExample))
          (sort_key (ringRank (columns specExample)) (rows specExample))))"
    by blast
  moreover have "map (\<lambda>s. toPropertyKey (sector_name s)) (sectors specExampleRadar) = [''X'', ''Y'']"
    by (simp add: specExampleRadar_def)
  moreover have "map blip_name (blips (sectors specExampleRadar ! 0)) = [JStr ''A'', JStr ''B'']"
    by (simp add: specExampleRadar_def)
  ultimately show ?thesis by simp
qed

section \<open>The sector angles of the transformed data\<close>

lemma length_forInKeys: "length (forInKeys ks) = length ks"
  by (simp add: forInKeys_def sum_length_filter_compl)

lemma forInKeys_plain: "(\<forall>k \<in> set ks. \<not> isArrayIndex k) \<Longrightarrow> forInKeys ks = ks"
  by (simp add: forInKeys_def filter_empty_conv [THEN iffD2])

lemma length_firstSeen: "length (firstSeen ks) = card (set ks)"
proof -
  have "length (firstSeen ks) = card (set (firstSeen ks))"
    by (rule distinct_card [symmetric]) (rule distinct_firstSeen)
  then show ?thesis by (simp add: set_firstSeen)
qed

text \<open>
  The keys of the sectors of the Radar that \<open>transformData\<close> returns, in the Radar's
  order; the angles of the Radar are those that \<open>setSectorAngles\<close> assigns.
\<close>

lemma transformData_sector_keys:
  assumes run: "transformData cls dv = Inr r"
  shows "map (\<lambda>s. toPropertyKey (sector_name s)) (sectors r)
       = forInKeys (firstSeen (map (sectorKeyOf (columns dv))
           (sort_key (ringRank (columns dv)) (rows dv))))
   \<and> (\<exists>r0. r = setSectorAngles r0)"
proof -
  from transformData_Inr [OF run] obtain st where
    loop: "forEachRow
            (addRow cls (objects dv) (indexOf (columnMap (columns dv)) (Some ''name''))
               (indexOf (columnMap (columns dv)) (Some ''description''))
               (indexOf (columnMap (columns dv)) (Some ''sector''))
               (indexOf (columnMap (columns dv)) (Some ''ring''))
               (indexOf (columnMap (columns dv)) (Some ''isNew'')))
            (sort_key (ringRank (columns dv)) (rows dv))
            \<lparr>sectorsObject = [], coloursGenerated = 0\<rparr> = Inr st"
    and r: "r = setSectorAngles (foldl addSector newRadar (map snd (forIn (sectorsObject st))))"
    by blast
  from forEachRow_invariant [OF sectorsInvariant_initial loop]
  have inv: "sectorsInvariant cls (columns dv) st (sort_key (ringRank (columns dv)) (rows dv))"
    by simp
  then have keys: "map fst (sectorsObject st)
      = firstSeen (map (sectorKeyOf (columns dv)) (sort_key (ringRank (columns dv)) (rows dv)))"
    and entries: "\<And>k s. map_of (sectorsObject st) k = Some s \<Longrightarrow> toPropertyKey (sector_name s) = k"
    by (auto simp: sectorsInvariant_def)
  have dist: "distinct (map fst (sectorsObject st))"
    by (simp add: keys distinct_firstSeen)
  have entry: "toPropertyKey (sector_name s) = k" if "(k, s) \<in> set (sectorsObject st)" for k s
    using that dist by (intro entries) simp
  have names: "map (\<lambda>kv. toPropertyKey (sector_name (snd kv))) (forIn (sectorsObject st))
      = map fst (forIn (sectorsObject st))"
    by (rule map_cong [OF refl]) (use entry in \<open>auto simp: set_forIn\<close>)
  have secs: "sectors (foldl addSector newRadar (map snd (forIn (sectorsObject st))))
      = map snd (forIn (sectorsObject st))"
    by (simp add: sectors_foldl_addSector newRadar_def)
  have "map (\<lambda>s. toPropertyKey (sector_name s)) (sectors r)
      = map toPropertyKey (map sector_name (sectors r))" by simp
  also have "\<dots> = map toPropertyKey (map sector_name (map snd (forIn (sectorsObject st))))"
    by (simp only: r setSectorAngles_names secs)
  also have "\<dots> = map fst (forIn (sectorsObject st))"
    using names by (simp add: comp_def)
  finally have "map (\<lambda>s. toPropertyKey (sector_name s)) (sectors r)
       = forInKeys (firstSeen (map (sectorKeyOf (columns dv))
           (sort_key (ringRank (columns dv)) (rows dv))))"
    by (simp add: map_fst_forIn keys)
  with r show ?thesis by blast
qed

text \<open>
  C5, as the code has it. When \<open>transformData\<close> returns a Radar for rows with \<open>N \<ge> 1\<close>
  distinct sector keys, the Radar has \<open>N\<close> sectors, and the sector at position \<open>i\<close> of the
  Radar (counted from 0) has the arc from \<open>i 2\<pi> / N\<close> up to \<open>(i + 1) 2\<pi> / N\<close>: the arcs are
  \<open>2\<pi> / N\<close> wide, pairwise disjoint, and their union is the arc from 0 up to \<open>2\<pi>\<close>. The
  Radar's order is that of \<open>for ... in\<close> on the sector keys: the keys that are array
  indices first, in ascending numeric order, then the other keys in the order of their
  discovery in the sorted rows. It is the discovery order when no sector key is an array
  index. The transform draws no random number: the Radar is a function of the data view.
\<close>

theorem transformData_sector_arcs:
  assumes run: "transformData cls dv = Inr r"
    and ks: "ks = map (sectorKeyOf (columns dv)) (sort_key (ringRank (columns dv)) (rows dv))"
    and N: "N = card (sectorKeyOf (columns dv) ` set (rows dv))"
    and pos: "0 < N"
  shows "length (sectors r) = N
   \<and> map (\<lambda>s. toPropertyKey (sector_name s)) (sectors r) = forInKeys (firstSeen ks)
   \<and> ((\<forall>k \<in> set ks. \<not> isArrayIndex k) \<longrightarrow>
        map (\<lambda>s. toPropertyKey (sector_name s)) (sectors r) = firstSeen ks)
   \<and> (\<forall>i<N. startAngle (sectors r ! i) = real i * 2 * pi / real N
          \<and> endAngle (sectors r ! i) = (real i + 1) * 2 * pi / real N
          \<and> endAngle (sectors r ! i) - startAngle (sectors r ! i) = 2 * pi / real N)
   \<and> (\<forall>i<N. \<forall>j<N. i \<noteq> j \<longrightarrow> arc (sectors r ! i) \<inter> arc (sectors r ! j) = {})
   \<and> (\<Union>i<N. arc (sectors r ! i)) = {0 ..< 2 * pi}"
proof -
  from transformData_sector_keys [OF run] obtain r0 where
    order: "map (\<lambda>s. toPropertyKey (sector_name s)) (sectors r) = forInKeys (firstSeen ks)"
    and r: "r = setSectorAngles r0"
    unfolding ks by blast
  have "length (sectors r) = length (map (\<lambda>s. toPropertyKey (sector_name s)) (sectors r))"
    by simp
  also have "\<dots> = card (set ks)"
    by (simp only: order length_forInKeys length_firstSeen)
  also have "\<dots> = N"
    by (simp add: ks N)
  finally have len: "length (sectors r) = N" .
  then have N0: "N = length (sectors r0)"
    by (simp add: r setSectorAngles_length)
  have plain: "map (\<lambda>s. toPropertyKey (sector_name s)) (sectors r) = firstSeen ks"
    if "\<forall>k \<in> set ks. \<not> isArrayIndex k"
  proof -
    from that have "\<forall>k \<in> set (firstSeen ks). \<not> isArrayIndex k"
      by (simp add: set_firstSeen)
    then show ?thesis by (simp only: order forInKeys_plain)
  qed
  from setSectorAngles_arcs [OF N0 pos] len order plain show ?thesis
    unfolding r [symmetric] by blast
qed


text \<open>
  C5 as the specification states it, at two rows of the ring Accelerate with the
  sectors \<open>2\<close> and \<open>1\<close>: the sector \<open>2\<close> is discovered first, and the specification gives
  it the arc from 0 to \<open>\<pi>\<close>; in the Radar it is the second sector, with the arc from \<open>\<pi>\<close>
  to \<open>2\<pi>\<close>.
\<close>

theorem transformData_sector_arcs_counterexample:
  "firstSeen (map (sectorKeyOf roleColumns)
      (sort_key (ringRank roleColumns)
         [tableRow ''A'' ''2'' ''Accelerate'', tableRow ''B'' ''1'' ''Accelerate'']))
     = [''2'', ''1'']
   \<and> map_sum id sectorArcs
       (transformData plainClasses
          \<lparr>columns = roleColumns,
           rows = [tableRow ''A'' ''2'' ''Accelerate'', tableRow ''B'' ''1'' ''Accelerate''],
           objects = NoObjects\<rparr>)
     = Inr [(''1'', 0, pi), (''2'', pi, 2 * pi)]"
  by (simp add: transform_eval sectorArcs_def sectorKeyOf_def ringRank_def firstSeen_def)

text \<open>
  The theorem at the example of the specification: two sector keys, neither an array
  index; the sector Y, discovered second, gets the arc from \<open>\<pi>\<close> to \<open>2\<pi>\<close>.
\<close>

theorem transformData_sector_arcs_witness:
  "length (sectors specExampleRadar) = 2
   \<and> map (\<lambda>s. toPropertyKey (sector_name s)) (sectors specExampleRadar) = [''X'', ''Y'']
   \<and> firstSeen (map (sectorKeyOf (columns specExample))
        (sort_key (ringRank (columns specExample)) (rows specExample))) = [''X'', ''Y'']
   \<and> startAngle (sectors specExampleRadar ! 1) = pi
   \<and> endAngle (sectors specExampleRadar ! 1) = 2 * pi
   \<and> arc (sectors specExampleRadar ! 0) \<inter> arc (sectors specExampleRadar ! 1) = {}
   \<and> arc (sectors specExampleRadar ! 0) \<union> arc (sectors specExampleRadar ! 1) = {0 ..< 2 * pi}"
proof -
  have ks: "map (sectorKeyOf (columns specExample))
      (sort_key (ringRank (columns specExample)) (rows specExample)) = [''X'', ''Y'', ''X'']"
    by (simp add: specExample_def sectorKeyOf_def ringRank_def transform_eval)
  have N: "2 = card (sectorKeyOf (columns specExample) ` set (rows specExample))"
    by (simp add: specExample_def sectorKeyOf_def transform_eval)
  have pos: "0 < (2::nat)" by simp
  have plain: "\<forall>k \<in> set [''X'', ''Y'', ''X'']. \<not> isArrayIndex k"
    by (simp add: transform_eval)
  from transformData_sector_arcs [OF specExample_run ks [symmetric] N pos]
  have len: "length (sectors specExampleRadar) = 2"
    and order: "(\<forall>k \<in> set [''X'', ''Y'', ''X'']. \<not> isArrayIndex k) \<longrightarrow>
        map (\<lambda>s. toPropertyKey (sector_name s)) (sectors specExampleRadar)
          = firstSeen [''X'', ''Y'', ''X'']"
    and ang: "\<forall>i<2. startAngle (sectors specExampleRadar ! i) = real i * 2 * pi / real 2
          \<and> endAngle (sectors specExampleRadar ! i) = (real i + 1) * 2 * pi / real 2
          \<and> endAngle (sectors specExampleRadar ! i)
              - startAngle (sectors specExampleRadar ! i) = 2 * pi / real 2"
    and dis: "\<forall>i<2. \<forall>j<2. i \<noteq> j \<longrightarrow>
          arc (sectors specExampleRadar ! i) \<inter> arc (sectors specExampleRadar ! j) = {}"
    and un: "(\<Union>i<2. arc (sectors specExampleRadar ! i)) = {0 ..< 2 * pi}"
    by blast+
  from order plain have names: "map (\<lambda>s. toPropertyKey (sector_name s)) (sectors specExampleRadar)
      = firstSeen [''X'', ''Y'', ''X'']" by blast
  have fs: "firstSeen [''X'', ''Y'', ''X''] = [''X'', ''Y'']"
    by (simp add: firstSeen_def)
  from ang [rule_format, of 1]
  have "startAngle (sectors specExampleRadar ! 1) = pi"
    "endAngle (sectors specExampleRadar ! 1) = 2 * pi" by simp_all
  moreover from dis [rule_format, of 0 1] have "arc (sectors specExampleRadar ! 0)
      \<inter> arc (sectors specExampleRadar ! 1) = {}" by simp
  moreover have "{..<2::nat} = {0, 1}" by auto
  with un have "arc (sectors specExampleRadar ! 0)
      \<union> arc (sectors specExampleRadar ! 1) = {0 ..< 2 * pi}" by simp
  ultimately show ?thesis using len names by (simp only: ks fs)
qed

end
